theory Spec2Isabelle
  imports Main
begin

section \<open>Values exchanged with the backend\<close>

text \<open>
  The page scripts (login, registration, ingredient page, recipe page) are embedded as
  functions on page states. Every \<^verbatim>\<open>await fetch(...)\<close> logs the request it builds and
  receives its outcome as an argument of the workflow: the first argument is the outcome of
  the first request a workflow issues, the second the outcome of the re-fetch that follows a
  successful mutation.

  JavaScript strings are modelled as \<^typ>\<open>string\<close>, a character being read as a code
  point below 256. JSON records are typed: an ingredient is \<open>{id, name}\<close>, a recipe is
  \<open>{id, name, instructions, author}\<close>, the author being an opaque JSON value. The body of
  a list response is a list of such records, or it is unreadable; a body that is JSON of
  another shape is outside the model.
\<close>

datatype jsonv = JNull | JNum int | JStr string | JObj "(string \<times> jsonv) list"

text \<open>The field \<open>id\<close> of the source is called \<open>ident\<close> (\<open>id\<close> is the identity of HOL).\<close>

record entity =
  ident :: int
  name :: string

record recipe = entity +
  instructions :: string
  author :: jsonv

type_synonym ingredient = entity

datatype http_method = GET | POST | PUT | DELETE

text \<open>
  The URLs the scripts build from \<^verbatim>\<open>BASE_URL\<close>: \<^verbatim>\<open>/login\<close>, \<^verbatim>\<open>/logout\<close>, \<^verbatim>\<open>/register\<close>,
  \<^verbatim>\<open>/ingredients\<close>, \<^verbatim>\<open>/ingredients/${id}\<close>, \<^verbatim>\<open>/recipes\<close>,
  \<^verbatim>\<open>/recipes?name=${encodeURIComponent(term)}\<close> and \<^verbatim>\<open>/recipes/${id}\<close>.
\<close>

datatype url =
    LoginUrl | LogoutUrl | RegisterUrl
  | IngredientsUrl | IngredientUrl int
  | RecipesUrl | RecipesSearchUrl string | RecipeUrl int

text \<open>
  A request as \<^verbatim>\<open>fetch\<close> receives it: the method, the URL, the \<^verbatim>\<open>Authorization\<close> header
  when one is set, whether \<^verbatim>\<open>Content-Type: application/json\<close> is set, and the object given
  to \<^verbatim>\<open>JSON.stringify\<close> as the body, when there is one. The option \<^verbatim>\<open>method\<close> of the
  source is the field \<open>httpMethod\<close>.
\<close>

record request =
  httpMethod :: http_method
  url :: url
  authorization :: "string option"
  contentType :: bool
  body :: "(string \<times> jsonv) list option"

text \<open>
  The outcome of a \<^verbatim>\<open>fetch\<close>: the promise rejects (\<open>Rejected\<close>, a transport failure), or it
  resolves to a response with a status and a body. The body is \<open>None\<close> when reading it
  (\<^verbatim>\<open>response.json()\<close>, \<^verbatim>\<open>response.text()\<close>) throws.
\<close>

datatype 'a fetch_result = Rejected | Response int "'a option"

text \<open>\<^verbatim>\<open>response.ok\<close>: the status is in the range 200 to 299.\<close>

definition ok :: "int \<Rightarrow> bool" where
  "ok status = (200 \<le> status \<and> status \<le> 299)"

section \<open>The browser: session storage, alerts, console, navigation, network log\<close>

record browser =
  sessionStorage :: "string \<rightharpoonup> string"
  alerts :: "string list"
  console :: "string list"
  href :: "string option"
  sent :: "request list"

definition alert :: "string \<Rightarrow> 'a browser_scheme \<Rightarrow> 'a browser_scheme" where
  "alert m p = p\<lparr>alerts := alerts p @ [m]\<rparr>"

definition console_error :: "string \<Rightarrow> 'a browser_scheme \<Rightarrow> 'a browser_scheme" where
  "console_error m p = p\<lparr>console := console p @ [m]\<rparr>"

text \<open>An assignment to \<^verbatim>\<open>window.location.href\<close>.\<close>

definition navigate :: "string \<Rightarrow> 'a browser_scheme \<Rightarrow> 'a browser_scheme" where
  "navigate u p = p\<lparr>href := Some u\<rparr>"

text \<open>Sending a request: it is appended to the network log.\<close>

definition fetch :: "request \<Rightarrow> 'a browser_scheme \<Rightarrow> 'a browser_scheme" where
  "fetch req p = p\<lparr>sent := sent p @ [req]\<rparr>"

definition getItem :: "string \<Rightarrow> 'a browser_scheme \<Rightarrow> string option" where
  "getItem k p = sessionStorage p k"

definition setItem :: "string \<Rightarrow> string \<Rightarrow> 'a browser_scheme \<Rightarrow> 'a browser_scheme" where
  "setItem k v p = p\<lparr>sessionStorage := (sessionStorage p)(k \<mapsto> v)\<rparr>"

definition removeItem :: "string \<Rightarrow> 'a browser_scheme \<Rightarrow> 'a browser_scheme" where
  "removeItem k p = p\<lparr>sessionStorage := (sessionStorage p)(k := None)\<rparr>"

text \<open>\<^verbatim>\<open>'Bearer ' + token\<close>, where a missing token is \<^verbatim>\<open>null\<close> and prints as such.\<close>

definition bearer :: "string option \<Rightarrow> string" where
  "bearer token = ''Bearer '' @ (case token of None \<Rightarrow> ''null'' | Some t \<Rightarrow> t)"

text \<open>
  \<^verbatim>\<open>String.prototype.trim\<close>: white space and line terminators are removed at both ends.
  Below code point 256 these are TAB, LF, VT, FF, CR, SPACE and NBSP.
\<close>

definition is_ws :: "char \<Rightarrow> bool" where
  "is_ws c = (c \<in> set [CHR 0x09, CHR 0x0A, CHR 0x0B, CHR 0x0C, CHR 0x0D, CHR 0x20, CHR 0xA0])"

definition trim :: "string \<Rightarrow> string" where
  "trim s = rev (dropWhile is_ws (rev (dropWhile is_ws s)))"

text \<open>
  \<^verbatim>\<open>text.split(' ')\<close>: the pieces between single spaces, empty pieces included; the empty
  string gives one empty piece.
\<close>

fun split_space :: "string \<Rightarrow> string list" where
  "split_space [] = [[]]"
| "split_space (c # cs) =
     (if c = CHR '' '' then [] # split_space cs
      else (case split_space cs of
              [] \<Rightarrow> [[c]]
            | w # ws \<Rightarrow> (c # w) # ws))"

text \<open>
  \<^verbatim>\<open>const [token, isAdmin] = parts\<close>, each then given to \<^verbatim>\<open>sessionStorage.setItem\<close>, which
  stores a missing (\<^verbatim>\<open>undefined\<close>) value as the string \<^verbatim>\<open>"undefined"\<close>.
\<close>

fun destructure2 :: "string list \<Rightarrow> string \<times> string" where
  "destructure2 [] = (''undefined'', ''undefined'')"
| "destructure2 [t] = (t, ''undefined'')"
| "destructure2 (t # a # _) = (t, a)"

section \<open>The session store\<close>

text \<open>
  The scripts keep the session in two keys of the session storage. The four operations are
  written inline in the source: both \<^verbatim>\<open>setItem\<close> calls of \<^verbatim>\<open>processLogin\<close>, the reads
  \<^verbatim>\<open>sessionStorage.getItem('auth-token')\<close> and
  \<^verbatim>\<open>sessionStorage.getItem('is-admin') === 'true'\<close>, and both \<^verbatim>\<open>removeItem\<close> calls of
  \<^verbatim>\<open>processLogout\<close>.
\<close>

definition setSession :: "string \<Rightarrow> string \<Rightarrow> 'a browser_scheme \<Rightarrow> 'a browser_scheme" where
  "setSession token isAdminFlag p = setItem ''is-admin'' isAdminFlag (setItem ''auth-token'' token p)"

definition getToken :: "'a browser_scheme \<Rightarrow> string option" where
  "getToken p = getItem ''auth-token'' p"

definition isAdmin :: "'a browser_scheme \<Rightarrow> bool" where
  "isAdmin p = (getItem ''is-admin'' p = Some ''true'')"

definition clearSession :: "'a browser_scheme \<Rightarrow> 'a browser_scheme" where
  "clearSession p = removeItem ''is-admin'' (removeItem ''auth-token'' p)"

section \<open>The name-keyed resolver\<close>

text \<open>\<^verbatim>\<open>records.find(r => r.name === name)\<close>, as the update and delete workflows call it.\<close>

definition findByName :: "string \<Rightarrow> 'a entity_scheme list \<Rightarrow> 'a entity_scheme option" where
  "findByName n records = find (\<lambda>r. name r = n) records"

section \<open>The recipe page\<close>

record recipe_page = browser +
  addRecipeNameInput :: string
  addRecipeInstructionsInput :: string
  updateRecipeNameInput :: string
  updateRecipeInstructionsInput :: string
  deleteRecipeNameInput :: string
  searchInput :: string
  recipes :: "recipe list"
  recipeListContainer :: "string list"
  adminLink :: bool
  logoutButton :: bool

definition loginPageUrl :: string where
  "loginPageUrl = ''../login/login-page.html''"

definition refreshRecipeList :: "recipe_page \<Rightarrow> recipe_page" where
  "refreshRecipeList p =
     p\<lparr>recipeListContainer := map (\<lambda>r. name r @ '': '' @ instructions r) (recipes p)\<rparr>"

definition getRecipes_catch :: "recipe_page \<Rightarrow> recipe_page" where
  "getRecipes_catch p = alert ''Error fetching recipes'' (console_error ''Get recipes error:'' p)"

definition getRecipes :: "recipe list fetch_result \<Rightarrow> recipe_page \<Rightarrow> recipe_page" where
  "getRecipes r p =
     (let token = getItem ''auth-token'' p;
          p1 = fetch \<lparr>httpMethod = GET, url = RecipesUrl, authorization = Some (bearer token),
                      contentType = False, body = None\<rparr> p
      in case r of
           Rejected \<Rightarrow> getRecipes_catch p1
         | Response status b \<Rightarrow>
             if ok status then
               (case b of
                  None \<Rightarrow> getRecipes_catch p1
                | Some rs \<Rightarrow> refreshRecipeList (p1\<lparr>recipes := rs\<rparr>))
             else if status = 401 then
               navigate loginPageUrl (alert ''Unauthorized: Please login'' p1)
             else alert ''Failed to fetch recipes'' p1)"

definition searchRecipes_catch :: "recipe_page \<Rightarrow> recipe_page" where
  "searchRecipes_catch p = alert ''Failed to search recipes'' (console_error ''Search error:'' p)"

definition searchRecipes :: "recipe list fetch_result \<Rightarrow> recipe_page \<Rightarrow> recipe_page" where
  "searchRecipes r p =
     (let searchTerm = trim (searchInput p) in
      if searchTerm = [] then getRecipes r p
      else
        let token = getItem ''auth-token'' p;
            p1 = fetch \<lparr>httpMethod = GET, url = RecipesSearchUrl searchTerm,
                        authorization = Some (bearer token), contentType = True, body = None\<rparr> p
        in case r of
             Rejected \<Rightarrow> searchRecipes_catch p1
           | Response status b \<Rightarrow>
               if ok status then
                 (case b of
                    None \<Rightarrow> searchRecipes_catch p1
                  | Some rs \<Rightarrow> refreshRecipeList (p1\<lparr>recipes := rs\<rparr>))
               else if status = 404 then refreshRecipeList (p1\<lparr>recipes := []\<rparr>)
               else alert ''Error searching recipes'' p1)"

definition addRecipe_catch :: "recipe_page \<Rightarrow> recipe_page" where
  "addRecipe_catch p = alert ''Error adding recipe'' (console_error ''Add recipe error:'' p)"

definition addRecipe ::
  "recipe list fetch_result \<Rightarrow> recipe list fetch_result \<Rightarrow> recipe_page \<Rightarrow> recipe_page" where
  "addRecipe r1 r2 p =
     (let nm = trim (addRecipeNameInput p);
          ins = trim (addRecipeInstructionsInput p) in
      if nm = [] \<or> ins = [] then alert ''Please provide both recipe name and instructions'' p
      else
        let token = getItem ''auth-token'' p;
            p1 = fetch \<lparr>httpMethod = POST, url = RecipesUrl, authorization = Some (bearer token),
                        contentType = True,
                        body = Some [(''name'', JStr nm), (''instructions'', JStr ins)]\<rparr> p
        in case r1 of
             Rejected \<Rightarrow> addRecipe_catch p1
           | Response status b \<Rightarrow>
               if status = 201 then
                 getRecipes r2 (p1\<lparr>addRecipeNameInput := [], addRecipeInstructionsInput := []\<rparr>)
               else if status = 401 then alert ''Unauthorized: Please login again'' p1
               else alert ''Failed to add recipe'' p1)"

definition updateRecipe_catch :: "recipe_page \<Rightarrow> recipe_page" where
  "updateRecipe_catch p = alert ''Error updating recipe'' (console_error ''Update recipe error:'' p)"

definition updateRecipe ::
  "recipe list fetch_result \<Rightarrow> recipe list fetch_result \<Rightarrow> recipe_page \<Rightarrow> recipe_page" where
  "updateRecipe r1 r2 p =
     (let nm = trim (updateRecipeNameInput p);
          ins = trim (updateRecipeInstructionsInput p) in
      if nm = [] \<or> ins = [] then
        alert ''Please provide both recipe name and new instructions'' p
      else
        case findByName nm (recipes p) of
          None \<Rightarrow> alert ''Recipe not found'' p
        | Some rcp \<Rightarrow>
            let token = getItem ''auth-token'' p;
                p1 = fetch \<lparr>httpMethod = PUT, url = RecipeUrl (ident rcp),
                            authorization = Some (bearer token), contentType = True,
                            body = Some [(''id'', JNum (ident rcp)), (''name'', JStr (name rcp)),
                                         (''instructions'', JStr ins),
                                         (''author'', author rcp)]\<rparr> p
            in (case r1 of
                  Rejected \<Rightarrow> updateRecipe_catch p1
                | Response status b \<Rightarrow>
                    if ok status then
                      getRecipes r2
                        (p1\<lparr>updateRecipeNameInput := [], updateRecipeInstructionsInput := []\<rparr>)
                    else if status = 401 then alert ''Unauthorized: Please login again'' p1
                    else alert ''Failed to update recipe'' p1))"

definition deleteRecipe_catch :: "recipe_page \<Rightarrow> recipe_page" where
  "deleteRecipe_catch p = alert ''Error deleting recipe'' (console_error ''Delete recipe error:'' p)"

definition deleteRecipe ::
  "recipe list fetch_result \<Rightarrow> recipe list fetch_result \<Rightarrow> recipe_page \<Rightarrow> recipe_page" where
  "deleteRecipe r1 r2 p =
     (let nm = trim (deleteRecipeNameInput p) in
      if nm = [] then alert ''Please provide a recipe name to delete'' p
      else
        case findByName nm (recipes p) of
          None \<Rightarrow> alert ''Recipe not found'' p
        | Some rcp \<Rightarrow>
            let token = getItem ''auth-token'' p;
                p1 = fetch \<lparr>httpMethod = DELETE, url = RecipeUrl (ident rcp),
                            authorization = Some (bearer token), contentType = False,
                            body = None\<rparr> p
            in (case r1 of
                  Rejected \<Rightarrow> deleteRecipe_catch p1
                | Response status b \<Rightarrow>
                    if ok status then getRecipes r2 (p1\<lparr>deleteRecipeNameInput := []\<rparr>)
                    else if status = 401 then alert ''Unauthorized: Please login again'' p1
                    else if status = 403 then alert ''Forbidden: Admin access required'' p1
                    else alert ''Failed to delete recipe'' p1))"

definition processLogout_catch :: "recipe_page \<Rightarrow> recipe_page" where
  "processLogout_catch p = alert ''Error during logout'' (console_error ''Logout error:'' p)"

definition processLogout :: "recipe list fetch_result \<Rightarrow> recipe_page \<Rightarrow> recipe_page" where
  "processLogout r p =
     (let token = getItem ''auth-token'' p;
          p1 = fetch \<lparr>httpMethod = POST, url = LogoutUrl, authorization = Some (bearer token),
                      contentType = False, body = None\<rparr> p
      in case r of
           Rejected \<Rightarrow> processLogout_catch p1
         | Response status b \<Rightarrow>
             if ok status then navigate loginPageUrl (clearSession p1)
             else alert ''Logout failed'' p1)"

text \<open>
  The \<^verbatim>\<open>DOMContentLoaded\<close> handler: the logout button is shown when a token is stored and
  truthy (not the empty string), the admin link when the admin flag is \<^verbatim>\<open>'true'\<close>, and the
  list is loaded.
\<close>

definition recipe_onLoad :: "recipe list fetch_result \<Rightarrow> recipe_page \<Rightarrow> recipe_page" where
  "recipe_onLoad r p =
     (let p1 = (case getToken p of
                  None \<Rightarrow> p
                | Some t \<Rightarrow> if t = [] then p else p\<lparr>logoutButton := True\<rparr>);
          p2 = (if isAdmin p1 then p1\<lparr>adminLink := True\<rparr> else p1)
      in getRecipes r p2)"

text \<open>The workflows of the recipe page: the click handlers, and the list fetch.\<close>

datatype recipe_workflow =
  SearchRecipes | AddRecipe | UpdateRecipe | DeleteRecipe | GetRecipes | ProcessLogout

fun run_recipe ::
  "recipe_workflow \<Rightarrow> recipe list fetch_result \<Rightarrow> recipe list fetch_result \<Rightarrow>
   recipe_page \<Rightarrow> recipe_page" where
  "run_recipe SearchRecipes r1 r2 p = searchRecipes r1 p"
| "run_recipe AddRecipe r1 r2 p = addRecipe r1 r2 p"
| "run_recipe UpdateRecipe r1 r2 p = updateRecipe r1 r2 p"
| "run_recipe DeleteRecipe r1 r2 p = deleteRecipe r1 r2 p"
| "run_recipe GetRecipes r1 r2 p = getRecipes r1 p"
| "run_recipe ProcessLogout r1 r2 p = processLogout r1 p"

section \<open>The ingredient page\<close>

record ingredient_page = browser +
  addIngredientNameInput :: string
  deleteIngredientNameInput :: string
  ingredients :: "ingredient list"
  ingredientListContainer :: "string list"

definition refreshIngredientList :: "ingredient_page \<Rightarrow> ingredient_page" where
  "refreshIngredientList p = p\<lparr>ingredientListContainer := map name (ingredients p)\<rparr>"

definition getIngredients_catch :: "ingredient_page \<Rightarrow> ingredient_page" where
  "getIngredients_catch p =
     alert ''Error fetching ingredients'' (console_error ''Get ingredients error:'' p)"

definition getIngredients :: "ingredient list fetch_result \<Rightarrow> ingredient_page \<Rightarrow> ingredient_page" where
  "getIngredients r p =
     (let token = getItem ''auth-token'' p;
          p1 = fetch \<lparr>httpMethod = GET, url = IngredientsUrl, authorization = Some (bearer token),
                      contentType = False, body = None\<rparr> p
      in case r of
           Rejected \<Rightarrow> getIngredients_catch p1
         | Response status b \<Rightarrow>
             if ok status then
               (case b of
                  None \<Rightarrow> getIngredients_catch p1
                | Some is \<Rightarrow> refreshIngredientList (p1\<lparr>ingredients := is\<rparr>))
             else if status = 401 then
               navigate loginPageUrl (alert ''Unauthorized: Please login'' p1)
             else alert ''Failed to fetch ingredients'' p1)"

definition addIngredient_catch :: "ingredient_page \<Rightarrow> ingredient_page" where
  "addIngredient_catch p =
     alert ''Error adding ingredient'' (console_error ''Add ingredient error:'' p)"

definition addIngredient ::
  "ingredient list fetch_result \<Rightarrow> ingredient list fetch_result \<Rightarrow>
   ingredient_page \<Rightarrow> ingredient_page" where
  "addIngredient r1 r2 p =
     (let ingredientName = trim (addIngredientNameInput p) in
      if ingredientName = [] then alert ''Please enter an ingredient name'' p
      else
        let token = getItem ''auth-token'' p;
            p1 = fetch \<lparr>httpMethod = POST, url = IngredientsUrl, authorization = Some (bearer token),
                        contentType = True, body = Some [(''name'', JStr ingredientName)]\<rparr> p
        in case r1 of
             Rejected \<Rightarrow> addIngredient_catch p1
           | Response status b \<Rightarrow>
               if status = 201 then
                 refreshIngredientList (getIngredients r2 (p1\<lparr>addIngredientNameInput := []\<rparr>))
               else if status = 401 then alert ''Unauthorized: Please login again'' p1
               else if status = 403 then alert ''Forbidden: Admin access required'' p1
               else alert ''Failed to add ingredient'' p1)"

definition deleteIngredient_catch :: "ingredient_page \<Rightarrow> ingredient_page" where
  "deleteIngredient_catch p =
     alert ''Error deleting ingredient'' (console_error ''Delete ingredient error:'' p)"

definition deleteIngredient ::
  "ingredient list fetch_result \<Rightarrow> ingredient list fetch_result \<Rightarrow>
   ingredient_page \<Rightarrow> ingredient_page" where
  "deleteIngredient r1 r2 p =
     (let ingredientName = trim (deleteIngredientNameInput p) in
      if ingredientName = [] then alert ''Please enter an ingredient name to delete'' p
      else
        case findByName ingredientName (ingredients p) of
          None \<Rightarrow> alert ''Ingredient not found'' p
        | Some ingredient \<Rightarrow>
            let token = getItem ''auth-token'' p;
                p1 = fetch \<lparr>httpMethod = DELETE, url = IngredientUrl (ident ingredient),
                            authorization = Some (bearer token), contentType = False,
                            body = None\<rparr> p
            in (case r1 of
                  Rejected \<Rightarrow> deleteIngredient_catch p1
                | Response status b \<Rightarrow>
                    if status = 204 \<or> status = 200 then
                      refreshIngredientList
                        (getIngredients r2 (p1\<lparr>deleteIngredientNameInput := []\<rparr>))
                    else if status = 401 then alert ''Unauthorized: Please login again'' p1
                    else if status = 403 then alert ''Forbidden: Admin access required'' p1
                    else if status = 404 then alert ''Ingredient not found'' p1
                    else alert ''Failed to delete ingredient'' p1))"

datatype ingredient_workflow = AddIngredient | DeleteIngredient | GetIngredients

fun run_ingredient ::
  "ingredient_workflow \<Rightarrow> ingredient list fetch_result \<Rightarrow> ingredient list fetch_result \<Rightarrow>
   ingredient_page \<Rightarrow> ingredient_page" where
  "run_ingredient AddIngredient r1 r2 p = addIngredient r1 r2 p"
| "run_ingredient DeleteIngredient r1 r2 p = deleteIngredient r1 r2 p"
| "run_ingredient GetIngredients r1 r2 p = getIngredients r1 p"

section \<open>The login page\<close>

text \<open>
  The logout button of the login page may be missing from the document
  (\<^verbatim>\<open>getElementById\<close> gives \<^verbatim>\<open>null\<close>): \<open>None\<close>; otherwise the field says whether it is
  shown. It is called \<open>loginLogoutButton\<close> here, the recipe page having a \<open>logoutButton\<close>
  of its own. The redirection to the recipe page, which the script delays by 500 ms, is
  recorded as the navigation it ends in.
\<close>

record login_page = browser +
  usernameInput :: string
  passwordInput :: string
  loginLogoutButton :: "bool option"

definition recipePageUrl :: string where
  "recipePageUrl = ''../recipe/recipe-page.html''"

definition processLogin_catch :: "login_page \<Rightarrow> login_page" where
  "processLogin_catch p =
     alert ''Network error occurred. Please try again.'' (console_error ''Login error:'' p)"

definition processLogin :: "string fetch_result \<Rightarrow> login_page \<Rightarrow> login_page" where
  "processLogin r p =
     (let username = trim (usernameInput p);
          password = trim (passwordInput p) in
      if username = [] \<or> password = [] then alert ''Please enter both username and password'' p
      else
        let p1 = fetch \<lparr>httpMethod = POST, url = LoginUrl, authorization = None, contentType = True,
                        body = Some [(''username'', JStr username),
                                     (''password'', JStr password)]\<rparr> p
        in case r of
             Rejected \<Rightarrow> processLogin_catch p1
           | Response status b \<Rightarrow>
               if status = 200 then
                 (case b of
                    None \<Rightarrow> processLogin_catch p1
                  | Some responseText \<Rightarrow>
                      let (token, isAdminFlag) = destructure2 (split_space responseText);
                          p2 = setSession token isAdminFlag p1;
                          p3 = p2\<lparr>loginLogoutButton := map_option (\<lambda>_. True) (loginLogoutButton p2)\<rparr>
                      in navigate recipePageUrl p3)
               else if status = 401 then alert ''Incorrect login!'' p1
               else alert ''Unknown issue!'' p1)"

section \<open>The registration page\<close>

text \<open>
  The user name and password inputs of the registration page are called
  \<open>regUsernameInput\<close> and \<open>regPasswordInput\<close> here, the login page having inputs of the
  same names.
\<close>

record register_page = browser +
  regUsernameInput :: string
  emailInput :: string
  regPasswordInput :: string
  repeatPasswordInput :: string

definition processRegistration_catch :: "register_page \<Rightarrow> register_page" where
  "processRegistration_catch p =
     alert ''An error occurred during registration. Please try again.''
       (console_error ''Registration error:'' p)"

definition processRegistration :: "'a fetch_result \<Rightarrow> register_page \<Rightarrow> register_page" where
  "processRegistration r p =
     (let username = trim (regUsernameInput p);
          email = trim (emailInput p);
          password = trim (regPasswordInput p);
          repeatPassword = trim (repeatPasswordInput p) in
      if username = [] \<or> email = [] \<or> password = [] \<or> repeatPassword = [] then
        alert ''Please fill in all fields'' p
      else if password \<noteq> repeatPassword then alert ''Passwords do not match'' p
      else
        let p1 = fetch \<lparr>httpMethod = POST, url = RegisterUrl, authorization = None,
                        contentType = True,
                        body = Some [(''username'', JStr username), (''email'', JStr email),
                                     (''password'', JStr password)]\<rparr> p
        in case r of
             Rejected \<Rightarrow> processRegistration_catch p1
           | Response status b \<Rightarrow>
               if status = 201 then navigate loginPageUrl p1
               else if status = 409 then alert ''User or email already exists'' p1
               else alert ''Registration error. Please try again.'' p1)"

section \<open>Response variants\<close>

text \<open>
  The seven result variants of the specification's REST client. \<open>classify_by\<close> assigns a
  fetch outcome its variant, given the statuses that count as success; \<open>classify\<close> is the
  classification as the specification words it, success being every status from 200 to 299.
\<close>

datatype variant =
  Success | Unauthorized | Forbidden | NotFound | Conflict | GenericFailure | NetworkError

definition classify_by :: "(int \<Rightarrow> bool) \<Rightarrow> 'a fetch_result \<Rightarrow> variant" where
  "classify_by accepted r =
     (case r of
        Rejected \<Rightarrow> NetworkError
      | Response status b \<Rightarrow>
          if accepted status then Success
          else if status = 401 then Unauthorized
          else if status = 403 then Forbidden
          else if status = 404 then NotFound
          else if status = 409 then Conflict
          else GenericFailure)"

definition classify :: "'a fetch_result \<Rightarrow> variant" where
  "classify r = classify_by ok r"

text \<open>
  The test that guards the success branch of each workflow in the source:
  \<^verbatim>\<open>response.ok\<close>, \<^verbatim>\<open>response.status === 201\<close>, \<^verbatim>\<open>response.status === 200\<close> or
  \<^verbatim>\<open>response.status === 204 || response.status === 200\<close>.
\<close>

fun recipe_accepts :: "recipe_workflow \<Rightarrow> int \<Rightarrow> bool" where
  "recipe_accepts AddRecipe status = (status = 201)"
| "recipe_accepts SearchRecipes status = ok status"
| "recipe_accepts UpdateRecipe status = ok status"
| "recipe_accepts DeleteRecipe status = ok status"
| "recipe_accepts GetRecipes status = ok status"
| "recipe_accepts ProcessLogout status = ok status"

fun ingredient_accepts :: "ingredient_workflow \<Rightarrow> int \<Rightarrow> bool" where
  "ingredient_accepts AddIngredient status = (status = 201)"
| "ingredient_accepts DeleteIngredient status = (status = 204 \<or> status = 200)"
| "ingredient_accepts GetIngredients status = ok status"

definition login_accepts :: "int \<Rightarrow> bool" where
  "login_accepts status = (status = 200)"

definition registration_accepts :: "int \<Rightarrow> bool" where
  "registration_accepts status = (status = 201)"

text \<open>
  A failure variant of the specification's error taxonomy, as a fetch outcome: a transport
  failure, or a response whose status is not in the range 200 to 299.
\<close>

definition failure_variant :: "'a fetch_result \<Rightarrow> bool" where
  "failure_variant r = (case r of Rejected \<Rightarrow> True | Response status b \<Rightarrow> \<not> ok status)"

section \<open>Local checks\<close>

text \<open>
  The checks a workflow makes before it sends its request, in the order of the source, with
  the message of the check that fails: a required input that is empty after trimming, the
  two passwords of the registration differing, and, for an update or a delete, a name that
  no record of the list held by the page has. \<open>None\<close>: every check passes.
\<close>

fun recipe_local_error :: "recipe_workflow \<Rightarrow> recipe_page \<Rightarrow> string option" where
  "recipe_local_error SearchRecipes p = None"
| "recipe_local_error AddRecipe p =
     (if trim (addRecipeNameInput p) = [] \<or> trim (addRecipeInstructionsInput p) = [] then
        Some ''Please provide both recipe name and instructions''
      else None)"
| "recipe_local_error UpdateRecipe p =
     (if trim (updateRecipeNameInput p) = [] \<or> trim (updateRecipeInstructionsInput p) = [] then
        Some ''Please provide both recipe name and new instructions''
      else (case findByName (trim (updateRecipeNameInput p)) (recipes p) of
              None \<Rightarrow> Some ''Recipe not found''
            | Some rcp \<Rightarrow> None))"
| "recipe_local_error DeleteRecipe p =
     (if trim (deleteRecipeNameInput p) = [] then Some ''Please provide a recipe name to delete''
      else (case findByName (trim (deleteRecipeNameInput p)) (recipes p) of
              None \<Rightarrow> Some ''Recipe not found''
            | Some rcp \<Rightarrow> None))"
| "recipe_local_error GetRecipes p = None"
| "recipe_local_error ProcessLogout p = None"

fun ingredient_local_error :: "ingredient_workflow \<Rightarrow> ingredient_page \<Rightarrow> string option" where
  "ingredient_local_error AddIngredient p =
     (if trim (addIngredientNameInput p) = [] then Some ''Please enter an ingredient name''
      else None)"
| "ingredient_local_error DeleteIngredient p =
     (if trim (deleteIngredientNameInput p) = [] then
        Some ''Please enter an ingredient name to delete''
      else (case findByName (trim (deleteIngredientNameInput p)) (ingredients p) of
              None \<Rightarrow> Some ''Ingredient not found''
            | Some ingredient \<Rightarrow> None))"
| "ingredient_local_error GetIngredients p = None"

definition login_local_error :: "login_page \<Rightarrow> string option" where
  "login_local_error p =
     (if trim (usernameInput p) = [] \<or> trim (passwordInput p) = [] then
        Some ''Please enter both username and password''
      else None)"

definition registration_local_error :: "register_page \<Rightarrow> string option" where
  "registration_local_error p =
     (if trim (regUsernameInput p) = [] \<or> trim (emailInput p) = [] \<or>
         trim (regPasswordInput p) = [] \<or> trim (repeatPasswordInput p) = [] then
        Some ''Please fill in all fields''
      else if trim (regPasswordInput p) \<noteq> trim (repeatPasswordInput p) then
        Some ''Passwords do not match''
      else None)"

text \<open>The workflows that change the collection and fetch it again on success.\<close>

definition recipe_mutation :: "recipe_workflow \<Rightarrow> bool" where
  "recipe_mutation w = (w = AddRecipe \<or> w = UpdateRecipe \<or> w = DeleteRecipe)"

definition ingredient_mutation :: "ingredient_workflow \<Rightarrow> bool" where
  "ingredient_mutation w = (w = AddIngredient \<or> w = DeleteIngredient)"

section \<open>Reachable sessions\<close>

text \<open>
  The session storage is the only state that survives a navigation. A browser session
  starts with an empty storage; every workflow of every page, run on any state of that page
  holding the storage reached so far and with any outcome of its requests, reaches a
  storage. The parameter \<open>good\<close> restricts the bodies of the 200 responses to login
  requests; \<open>\<lambda>_. True\<close> leaves them unrestricted.
\<close>

inductive reachable :: "(string \<Rightarrow> bool) \<Rightarrow> (string \<rightharpoonup> string) \<Rightarrow> bool"
  for good :: "string \<Rightarrow> bool" where
  fresh: "reachable good Map.empty"
| login_step:
    "reachable good (sessionStorage p) \<Longrightarrow> (\<And>t. r = Response 200 (Some t) \<Longrightarrow> good t) \<Longrightarrow>
     reachable good (sessionStorage (processLogin r p))"
| registration_step:
    "reachable good (sessionStorage p) \<Longrightarrow>
     reachable good (sessionStorage (processRegistration (r :: unit fetch_result) p))"
| recipe_load:
    "reachable good (sessionStorage p) \<Longrightarrow> reachable good (sessionStorage (recipe_onLoad r p))"
| recipe_step:
    "reachable good (sessionStorage p) \<Longrightarrow>
     reachable good (sessionStorage (run_recipe w r1 r2 p))"
| ingredient_step:
    "reachable good (sessionStorage p) \<Longrightarrow>
     reachable good (sessionStorage (run_ingredient wi r1 r2 p))"

text \<open>A login response body that starts with a character other than a space.\<close>

definition starts_with_token :: "string \<Rightarrow> bool" where
  "starts_with_token t = (case t of [] \<Rightarrow> False | c # _ \<Rightarrow> c \<noteq> CHR '' '')"

section \<open>Example states\<close>

definition alice :: jsonv where
  "alice = JObj [(''id'', JNum 7), (''username'', JStr ''alice'')]"

definition soup :: recipe where
  "soup = \<lparr>ident = 1, name = ''Soup'', instructions = ''Boil'', author = alice\<rparr>"

definition stew :: recipe where
  "stew = \<lparr>ident = 2, name = ''Stew'', instructions = ''Braise'', author = alice\<rparr>"

definition soup_again :: recipe where
  "soup_again = \<lparr>ident = 3, name = ''Soup'', instructions = ''Blend'', author = JNull\<rparr>"

definition cake :: recipe where
  "cake = \<lparr>ident = 4, name = ''Cake'', instructions = ''Bake'', author = alice\<rparr>"

definition session0 :: "string \<rightharpoonup> string" where
  "session0 = [''auth-token'' \<mapsto> ''tok'', ''is-admin'' \<mapsto> ''false'']"

definition recipe_page0 :: recipe_page where
  "recipe_page0 =
     \<lparr>sessionStorage = session0, alerts = [], console = [], href = None, sent = [],
      addRecipeNameInput = '' Cake '', addRecipeInstructionsInput = ''Bake'',
      updateRecipeNameInput = ''Soup'', updateRecipeInstructionsInput = ''Simmer  '',
      deleteRecipeNameInput = ''Soup'', searchInput = ''Sou'',
      recipes = [soup, stew, soup_again],
      recipeListContainer = [''Soup: Boil'', ''Stew: Braise'', ''Soup: Blend''],
      adminLink = False, logoutButton = True\<rparr>"

definition salt :: ingredient where
  "salt = \<lparr>ident = 1, name = ''Salt''\<rparr>"

definition pepper :: ingredient where
  "pepper = \<lparr>ident = 2, name = ''salt''\<rparr>"

definition salt_again :: ingredient where
  "salt_again = \<lparr>ident = 3, name = ''Salt''\<rparr>"

definition sugar :: ingredient where
  "sugar = \<lparr>ident = 4, name = ''Sugar''\<rparr>"

definition ingredient_page0 :: ingredient_page where
  "ingredient_page0 =
     \<lparr>sessionStorage = session0, alerts = [], console = [], href = None, sent = [],
      addIngredientNameInput = ''Sugar'', deleteIngredientNameInput = ''Salt'',
      ingredients = [salt, pepper, salt_again],
      ingredientListContainer = [''Salt'', ''salt'', ''Salt'']\<rparr>"

definition login_page0 :: login_page where
  "login_page0 =
     \<lparr>sessionStorage = Map.empty, alerts = [], console = [], href = None, sent = [],
      usernameInput = ''alice'', passwordInput = ''secret'', loginLogoutButton = None\<rparr>"

definition register_page0 :: register_page where
  "register_page0 =
     \<lparr>sessionStorage = Map.empty, alerts = [], console = [], href = None, sent = [],
      regUsernameInput = ''bob'', emailInput = ''bob@example.org'',
      regPasswordInput = ''pw'', repeatPasswordInput = ''pw''\<rparr>"

section \<open>Unfolding the model\<close>

lemmas browser_ops = alert_def console_error_def navigate_def fetch_def getItem_def setItem_def
  removeItem_def

lemmas session_ops = setSession_def getToken_def isAdmin_def clearSession_def

lemmas recipe_defs = getRecipes_def getRecipes_catch_def searchRecipes_def searchRecipes_catch_def
  addRecipe_def addRecipe_catch_def updateRecipe_def updateRecipe_catch_def deleteRecipe_def
  deleteRecipe_catch_def processLogout_def processLogout_catch_def refreshRecipeList_def

lemmas ingredient_defs = getIngredients_def getIngredients_catch_def addIngredient_def
  addIngredient_catch_def deleteIngredient_def deleteIngredient_catch_def
  refreshIngredientList_def

lemmas login_defs = processLogin_def processLogin_catch_def

lemmas register_defs = processRegistration_def processRegistration_catch_def

lemmas example_defs = recipe_page0_def ingredient_page0_def login_page0_def register_page0_def
  session0_def soup_def stew_def soup_again_def cake_def salt_def pepper_def salt_again_def
  sugar_def alice_def

lemmas string_ops = trim_def is_ws_def

section \<open>Statuses and strings\<close>

lemma not_ok_simps:
  "\<not> ok s \<Longrightarrow> s \<noteq> 200" "\<not> ok s \<Longrightarrow> s \<noteq> 201" "\<not> ok s \<Longrightarrow> s \<noteq> 204"
  by (auto simp: ok_def)

lemma ok_simps:
  "\<not> ok 401" "\<not> ok 403" "\<not> ok 404" "\<not> ok 409" "\<not> ok 500" "ok 200" "ok 201" "ok 204"
  by (simp_all add: ok_def)

lemma trim_all_ws:
  assumes "\<forall>c\<in>set s. is_ws c"
  shows "trim s = []"
proof -
  from assms have d: "dropWhile is_ws s = []" by simp
  show ?thesis by (simp only: trim_def d rev.simps dropWhile.simps)
qed

lemma split_space_head: "\<exists>ws. split_space t = takeWhile (\<lambda>c. c \<noteq> CHR '' '') t # ws"
  by (induction t) auto

lemma destructure2_fst: "fst (destructure2 (w # ws)) = w"
  by (cases ws) simp_all

lemma login_token: "fst (destructure2 (split_space t)) = takeWhile (\<lambda>c. c \<noteq> CHR '' '') t"
  using split_space_head [of t] by (auto simp: destructure2_fst)

lemma split_space_token:
  "CHR '' '' \<notin> set t \<Longrightarrow> split_space (t @ CHR '' '' # rest) = t # split_space rest"
  by (induction t) auto

section \<open>What the workflows do to the session storage and the network log\<close>

lemma getRecipes_session: "sessionStorage (getRecipes r p) = sessionStorage p"
  by (simp add: recipe_defs browser_ops Let_def split: fetch_result.split option.split)

lemma recipe_session_kept:
  "w \<noteq> ProcessLogout \<Longrightarrow> sessionStorage (run_recipe w r1 r2 p) = sessionStorage p"
  by (cases w)
     (simp_all add: recipe_defs browser_ops Let_def split: fetch_result.split option.split)

lemma processLogout_session:
  "sessionStorage (processLogout r p) =
     (case r of
        Rejected \<Rightarrow> sessionStorage p
      | Response s b \<Rightarrow>
          if ok s then (sessionStorage p)(''auth-token'' := None, ''is-admin'' := None)
          else sessionStorage p)"
  by (simp add: recipe_defs browser_ops session_ops Let_def split: fetch_result.split)

lemma ingredient_session_kept:
  "sessionStorage (run_ingredient w r1 r2 p) = sessionStorage p"
  by (cases w)
     (simp_all add: ingredient_defs browser_ops Let_def split: fetch_result.split option.split)

lemma recipe_onLoad_session: "sessionStorage (recipe_onLoad r p) = sessionStorage p"
  by (simp add: recipe_onLoad_def getRecipes_session session_ops browser_ops Let_def
      split: option.split)

lemma processRegistration_session: "sessionStorage (processRegistration r p) = sessionStorage p"
  by (simp add: register_defs browser_ops Let_def split: fetch_result.split)

lemma processLogin_session:
  "sessionStorage (processLogin r p) ''auth-token'' =
     (if trim (usernameInput p) \<noteq> [] \<and> trim (passwordInput p) \<noteq> [] then
        (case r of
           Rejected \<Rightarrow> sessionStorage p ''auth-token''
         | Response s b \<Rightarrow>
             (case b of
                None \<Rightarrow> sessionStorage p ''auth-token''
              | Some t \<Rightarrow>
                  if s = 200 then Some (takeWhile (\<lambda>c. c \<noteq> CHR '' '') t)
                  else sessionStorage p ''auth-token''))
      else sessionStorage p ''auth-token'')"
  using login_token
  by (simp add: login_defs browser_ops session_ops Let_def split_beta
      split: fetch_result.split option.split)

lemma sent_ops:
  "sent (alert m p) = sent p" "sent (console_error m p) = sent p" "sent (navigate u p) = sent p"
  "sent (fetch req p) = sent p @ [req]" "sent (clearSession p) = sent p"
  "sent (setSession t a p) = sent p"
  by (simp_all add: browser_ops session_ops)

lemma ex_alert: "\<exists>m. alert c p = alert m p"
  by blast

lemma length_sent_getRecipes: "length (sent (getRecipes r p)) = Suc (length (sent p))"
  by (simp add: recipe_defs sent_ops Let_def split: fetch_result.split option.split)

lemma length_sent_getIngredients: "length (sent (getIngredients r p)) = Suc (length (sent p))"
  by (simp add: ingredient_defs sent_ops Let_def split: fetch_result.split option.split)

lemma recipe_sends_or_aborts:
  "(\<exists>m. run_recipe w r1 r2 p = alert m p) \<or>
   length (sent p) < length (sent (run_recipe w r1 r2 p))"
  by (cases w)
     (simp_all add: searchRecipes_def searchRecipes_catch_def addRecipe_def addRecipe_catch_def
        updateRecipe_def updateRecipe_catch_def deleteRecipe_def deleteRecipe_catch_def
        processLogout_def processLogout_catch_def refreshRecipeList_def
        sent_ops length_sent_getRecipes ex_alert Let_def
        split: fetch_result.split option.split)

lemma ingredient_sends_or_aborts:
  "(\<exists>m. run_ingredient w r1 r2 p = alert m p) \<or>
   length (sent p) < length (sent (run_ingredient w r1 r2 p))"
  by (cases w)
     (simp_all add: addIngredient_def addIngredient_catch_def deleteIngredient_def
        deleteIngredient_catch_def refreshIngredientList_def
        sent_ops length_sent_getIngredients ex_alert Let_def
        split: fetch_result.split option.split)

lemma login_sends_or_aborts:
  "(\<exists>m. processLogin r p = alert m p) \<or> length (sent p) < length (sent (processLogin r p))"
  by (simp add: login_defs sent_ops ex_alert Let_def split_beta
      split: fetch_result.split option.split)

lemma registration_sends_or_aborts:
  "(\<exists>m. processRegistration r p = alert m p) \<or>
   length (sent p) < length (sent (processRegistration r p))"
  by (simp add: register_defs sent_ops ex_alert Let_def split: fetch_result.split option.split)

section \<open>The resolver\<close>

text \<open>
  C5. For every list of records and every query string, \<open>findByName\<close> gives the first
  record, in the order of the list, whose name equals the query exactly (the comparison is
  that of the strings themselves: nothing is trimmed, and case matters), and gives nothing
  when no record has that name. A record it gives has no record of the queried name before
  it, so of several records sharing the name the earliest is the result.
\<close>

theorem findByName_first_match:
  "(findByName q xs = None \<longleftrightarrow> (\<forall>r\<in>set xs. name r \<noteq> q)) \<and>
   (findByName q xs = Some r \<longleftrightarrow>
      (\<exists>i<length xs. xs ! i = r \<and> name r = q \<and> (\<forall>j<i. name (xs ! j) \<noteq> q)))"
  unfolding findByName_def by (auto simp: find_None_iff find_Some_iff)

theorem findByName_first_match_witness:
  "findByName ''Salt'' [pepper, salt, salt_again] = Some salt \<and>
   findByName ''salt'' [pepper, salt, salt_again] = Some pepper \<and>
   findByName ''Salt '' [pepper, salt, salt_again] = None"
proof -
  have a: "\<exists>i<length [pepper, salt, salt_again]. [pepper, salt, salt_again] ! i = salt \<and>
             name salt = ''Salt'' \<and> (\<forall>j<i. name ([pepper, salt, salt_again] ! j) \<noteq> ''Salt'')"
    by (rule exI [of _ 1]) (simp add: example_defs)
  have b: "\<exists>i<length [pepper, salt, salt_again]. [pepper, salt, salt_again] ! i = pepper \<and>
             name pepper = ''salt'' \<and> (\<forall>j<i. name ([pepper, salt, salt_again] ! j) \<noteq> ''salt'')"
    by (rule exI [of _ 0]) (simp add: example_defs)
  have c: "\<forall>r\<in>set [pepper, salt, salt_again]. name r \<noteq> ''Salt ''"
    by (simp add: example_defs)
  from a b c
    findByName_first_match [of "''Salt''" "[pepper, salt, salt_again]" salt]
    findByName_first_match [of "''salt''" "[pepper, salt, salt_again]" pepper]
    findByName_first_match [of "''Salt ''" "[pepper, salt, salt_again]"]
  show ?thesis by blast
qed

section \<open>The session store\<close>

text \<open>
  C6. For every token \<open>t\<close>: after \<open>setSession t ''true''\<close> the token read back is \<open>t\<close> and
  \<open>isAdmin\<close> holds; \<open>isAdmin\<close> fails whenever the stored flag is missing or is any string
  other than \<open>true\<close>; after \<open>clearSession\<close> no token is stored. The workflows use the store
  so: a login answered by 200 with the body \<open>t true\<close> (\<open>t\<close> without a space) leaves the
  session of \<open>setSession t ''true''\<close>, and a logout answered by a 2xx status leaves no token.
\<close>

theorem session_store_contract:
  "getToken (setSession t ''true'' p) = Some t \<and>
   isAdmin (setSession t ''true'' p) \<and>
   (getItem ''is-admin'' p \<noteq> Some ''true'' \<longrightarrow> \<not> isAdmin p) \<and>
   getToken (clearSession p) = None \<and>
   (trim (usernameInput lp) \<noteq> [] \<and> trim (passwordInput lp) \<noteq> [] \<and> CHR '' '' \<notin> set t \<longrightarrow>
      getToken (processLogin (Response 200 (Some (t @ '' true''))) lp) = Some t \<and>
      isAdmin (processLogin (Response 200 (Some (t @ '' true''))) lp)) \<and>
   (ok s \<longrightarrow> getToken (processLogout (Response s b) rp) = None)"
proof -
  have store: "getToken (setSession t ''true'' p) = Some t \<and> isAdmin (setSession t ''true'' p) \<and>
      (getItem ''is-admin'' p \<noteq> Some ''true'' \<longrightarrow> \<not> isAdmin p) \<and>
      getToken (clearSession p) = None"
    by (simp add: session_ops browser_ops)
  have login: "getToken (processLogin (Response 200 (Some (t @ '' true''))) lp) = Some t \<and>
      isAdmin (processLogin (Response 200 (Some (t @ '' true''))) lp)"
    if "trim (usernameInput lp) \<noteq> []" "trim (passwordInput lp) \<noteq> []" "CHR '' '' \<notin> set t"
  proof -
    from that(3) have "split_space (t @ '' true'') = [t, ''true'']"
      by (simp add: split_space_token)
    with that(1,2) show ?thesis
      by (simp add: login_defs session_ops browser_ops Let_def)
  qed
  have logout: "getToken (processLogout (Response s b) rp) = None" if "ok s"
    using that by (simp add: recipe_defs session_ops browser_ops Let_def)
  from store login logout show ?thesis by blast
qed

theorem session_store_contract_witness:
  "getToken (setSession ''tok'' ''true'' login_page0) = Some ''tok'' \<and>
   isAdmin (setSession ''tok'' ''true'' login_page0) \<and>
   \<not> isAdmin recipe_page0 \<and>
   getToken (clearSession recipe_page0) = None \<and>
   getToken (processLogin (Response 200 (Some ''tok true'')) login_page0) = Some ''tok'' \<and>
   isAdmin (processLogin (Response 200 (Some ''tok true'')) login_page0) \<and>
   getToken (processLogout (Response 204 None) recipe_page0) = None"
proof -
  have flag: "getItem ''is-admin'' recipe_page0 \<noteq> Some ''true''"
    by (simp add: example_defs browser_ops)
  have inputs: "trim (usernameInput login_page0) \<noteq> [] \<and> trim (passwordInput login_page0) \<noteq> [] \<and>
      CHR '' '' \<notin> set ''tok''"
    by (simp add: example_defs string_ops)
  have status: "ok 204" by (rule ok_simps)
  from flag inputs status
    session_store_contract [of "''tok''" login_page0 login_page0 204 None recipe_page0]
    session_store_contract [of "''tok''" recipe_page0 login_page0 204 None recipe_page0]
  show ?thesis by simp
qed

section \<open>Searching with a blank term\<close>

text \<open>
  C8. For every state of the recipe page (so for every session) and every outcome of the
  request, a search whose term is empty or consists of white space only is the plain fetch
  of all recipes: the two workflows end in the same state, the one request sent is the
  \<open>GET /recipes\<close> of \<open>getRecipes\<close>, and on a readable 2xx response the list held is the
  list the backend returned.
\<close>

theorem search_blank_term_is_getRecipes:
  assumes "\<forall>c\<in>set (searchInput p). is_ws c"
  shows "searchRecipes r p = getRecipes r p \<and>
         sent (searchRecipes r p) =
           sent p @ [\<lparr>httpMethod = GET, url = RecipesUrl, authorization = Some (bearer (getToken p)),
                      contentType = False, body = None\<rparr>] \<and>
         (\<forall>s rs. r = Response s (Some rs) \<and> ok s \<longrightarrow> recipes (searchRecipes r p) = rs)"
proof -
  have eq: "searchRecipes r p = getRecipes r p"
    using assms by (simp add: searchRecipes_def trim_all_ws)
  have log: "sent (getRecipes r p) =
           sent p @ [\<lparr>httpMethod = GET, url = RecipesUrl, authorization = Some (bearer (getToken p)),
                      contentType = False, body = None\<rparr>]"
    by (simp add: recipe_defs session_ops browser_ops Let_def
        split: fetch_result.split option.split)
  have mirror: "\<forall>s rs. r = Response s (Some rs) \<and> ok s \<longrightarrow> recipes (getRecipes r p) = rs"
    by (simp add: recipe_defs browser_ops Let_def)
  show ?thesis unfolding eq using log mirror by blast
qed

theorem search_blank_term_is_getRecipes_witness:
  "searchRecipes (Response 200 (Some [soup, cake])) (recipe_page0\<lparr>searchInput := ''   ''\<rparr>) =
     getRecipes (Response 200 (Some [soup, cake])) (recipe_page0\<lparr>searchInput := ''   ''\<rparr>) \<and>
   sent (searchRecipes (Response 200 (Some [soup, cake])) (recipe_page0\<lparr>searchInput := ''   ''\<rparr>)) =
     [\<lparr>httpMethod = GET, url = RecipesUrl, authorization = Some ''Bearer tok'',
       contentType = False, body = None\<rparr>] \<and>
   recipes (searchRecipes (Response 200 (Some [soup, cake])) (recipe_page0\<lparr>searchInput := ''   ''\<rparr>)) =
     [soup, cake]"
proof -
  have blank: "\<forall>c\<in>set (searchInput (recipe_page0\<lparr>searchInput := ''   ''\<rparr>)). is_ws c"
    by (simp add: is_ws_def)
  have tok: "bearer (getToken (recipe_page0\<lparr>searchInput := ''   ''\<rparr>)) = ''Bearer tok''"
    by (simp add: bearer_def session_ops browser_ops example_defs)
  have st: "sent (recipe_page0\<lparr>searchInput := ''   ''\<rparr>) = []"
    by (simp add: example_defs)
  note inst = search_blank_term_is_getRecipes [OF blank, of "Response 200 (Some [soup, cake])"]
  from inst have e1:
    "searchRecipes (Response 200 (Some [soup, cake])) (recipe_page0\<lparr>searchInput := ''   ''\<rparr>) =
     getRecipes (Response 200 (Some [soup, cake])) (recipe_page0\<lparr>searchInput := ''   ''\<rparr>)"
    by (rule conjunct1)
  from inst have
    "sent (searchRecipes (Response 200 (Some [soup, cake])) (recipe_page0\<lparr>searchInput := ''   ''\<rparr>)) =
     sent (recipe_page0\<lparr>searchInput := ''   ''\<rparr>) @
       [\<lparr>httpMethod = GET, url = RecipesUrl,
         authorization = Some (bearer (getToken (recipe_page0\<lparr>searchInput := ''   ''\<rparr>))),
         contentType = False, body = None\<rparr>]"
    by blast
  with tok st have e2:
    "sent (searchRecipes (Response 200 (Some [soup, cake])) (recipe_page0\<lparr>searchInput := ''   ''\<rparr>)) =
     [\<lparr>httpMethod = GET, url = RecipesUrl, authorization = Some ''Bearer tok'',
       contentType = False, body = None\<rparr>]"
    by simp
  from inst ok_simps(6) have e3:
    "recipes (searchRecipes (Response 200 (Some [soup, cake])) (recipe_page0\<lparr>searchInput := ''   ''\<rparr>)) =
     [soup, cake]"
    by blast
  from e1 e2 e3 show ?thesis by blast
qed

section \<open>Adding a record\<close>

text \<open>
  C3. For every run of an add workflow whose trimmed inputs are all non-empty and whose
  request is answered by 201: the inputs of the add form are the empty string afterwards,
  and the collection is fetched again (the requests sent are the \<open>POST\<close> and then the
  \<open>GET\<close> of the collection). When that fetch succeeds with a list holding a record of the
  submitted (trimmed) name, the list kept by the page is that list, so it holds a record of
  that name. This is so on the recipe page and on the ingredient page.
\<close>

theorem add_created_refreshes:
  "(trim (addRecipeNameInput p) \<noteq> [] \<and> trim (addRecipeInstructionsInput p) \<noteq> [] \<longrightarrow>
      addRecipeNameInput (addRecipe (Response 201 b) r2 p) = [] \<and>
      addRecipeInstructionsInput (addRecipe (Response 201 b) r2 p) = [] \<and>
      map (\<lambda>q. (httpMethod q, url q)) (drop (length (sent p)) (sent (addRecipe (Response 201 b) r2 p))) =
        [(POST, RecipesUrl), (GET, RecipesUrl)] \<and>
      (\<forall>s rs. r2 = Response s (Some rs) \<and> ok s \<and>
          (\<exists>x\<in>set rs. name x = trim (addRecipeNameInput p)) \<longrightarrow>
          recipes (addRecipe (Response 201 b) r2 p) = rs \<and>
          (\<exists>x\<in>set (recipes (addRecipe (Response 201 b) r2 p)).
              name x = trim (addRecipeNameInput p)))) \<and>
   (trim (addIngredientNameInput q) \<noteq> [] \<longrightarrow>
      addIngredientNameInput (addIngredient (Response 201 c) t2 q) = [] \<and>
      map (\<lambda>q. (httpMethod q, url q))
          (drop (length (sent q)) (sent (addIngredient (Response 201 c) t2 q))) =
        [(POST, IngredientsUrl), (GET, IngredientsUrl)] \<and>
      (\<forall>s is. t2 = Response s (Some is) \<and> ok s \<and>
          (\<exists>x\<in>set is. name x = trim (addIngredientNameInput q)) \<longrightarrow>
          ingredients (addIngredient (Response 201 c) t2 q) = is \<and>
          (\<exists>x\<in>set (ingredients (addIngredient (Response 201 c) t2 q)).
              name x = trim (addIngredientNameInput q))))"
proof -
  let ?a = "addRecipe (Response 201 b) r2 p"
  let ?i = "addIngredient (Response 201 c) t2 q"
  have r1: "addRecipeNameInput ?a = [] \<and> addRecipeInstructionsInput ?a = []"
    if "trim (addRecipeNameInput p) \<noteq> []" "trim (addRecipeInstructionsInput p) \<noteq> []"
    using that
    by (simp add: recipe_defs browser_ops Let_def split: fetch_result.split option.split)
  have r2: "map (\<lambda>q. (httpMethod q, url q)) (drop (length (sent p)) (sent ?a)) =
       [(POST, RecipesUrl), (GET, RecipesUrl)]"
    if "trim (addRecipeNameInput p) \<noteq> []" "trim (addRecipeInstructionsInput p) \<noteq> []"
    using that
    by (simp add: recipe_defs browser_ops Let_def split: fetch_result.split option.split)
  have r3: "recipes (addRecipe (Response 201 b) (Response s (Some rs)) p) = rs"
    if "trim (addRecipeNameInput p) \<noteq> []" "trim (addRecipeInstructionsInput p) \<noteq> []"
      "ok s" for s rs
    using that by (simp add: recipe_defs browser_ops Let_def)
  have i1: "addIngredientNameInput ?i = []" if "trim (addIngredientNameInput q) \<noteq> []"
    using that
    by (simp add: ingredient_defs browser_ops Let_def split: fetch_result.split option.split)
  have i2: "map (\<lambda>q. (httpMethod q, url q)) (drop (length (sent q)) (sent ?i)) =
       [(POST, IngredientsUrl), (GET, IngredientsUrl)]"
    if "trim (addIngredientNameInput q) \<noteq> []"
    using that
    by (simp add: ingredient_defs browser_ops Let_def split: fetch_result.split option.split)
  have i3: "ingredients (addIngredient (Response 201 c) (Response s (Some is)) q) = is"
    if "trim (addIngredientNameInput q) \<noteq> []" "ok s" for s "is"
    using that by (simp add: ingredient_defs browser_ops Let_def)
  show ?thesis
  proof (intro conjI impI allI; (elim conjE)?)
    fix s rs
    assume "trim (addRecipeNameInput p) \<noteq> []" "trim (addRecipeInstructionsInput p) \<noteq> []"
      "r2 = Response s (Some rs)" "ok s" "\<exists>x\<in>set rs. name x = trim (addRecipeNameInput p)"
    from r3 [OF this(1,2,4)] this(3,5)
    show "\<exists>x\<in>set (recipes ?a). name x = trim (addRecipeNameInput p)" by simp
  next
    fix s "is"
    assume "trim (addIngredientNameInput q) \<noteq> []"
      "t2 = Response s (Some is)" "ok s" "\<exists>x\<in>set is. name x = trim (addIngredientNameInput q)"
    from i3 [OF this(1,3)] this(2,4)
    show "\<exists>x\<in>set (ingredients ?i). name x = trim (addIngredientNameInput q)" by simp
  qed (simp_all add: r1 r2 r3 i1 i2 i3)
qed

theorem add_created_refreshes_witness:
  "addRecipeNameInput (addRecipe (Response 201 None) (Response 200 (Some [soup, cake])) recipe_page0) = [] \<and>
   addRecipeInstructionsInput
     (addRecipe (Response 201 None) (Response 200 (Some [soup, cake])) recipe_page0) = [] \<and>
   recipes (addRecipe (Response 201 None) (Response 200 (Some [soup, cake])) recipe_page0) =
     [soup, cake] \<and>
   (\<exists>x\<in>set (recipes (addRecipe (Response 201 None) (Response 200 (Some [soup, cake])) recipe_page0)).
      name x = ''Cake'') \<and>
   addIngredientNameInput
     (addIngredient (Response 201 None) (Response 200 (Some [salt, sugar])) ingredient_page0) = [] \<and>
   ingredients (addIngredient (Response 201 None) (Response 200 (Some [salt, sugar])) ingredient_page0) =
     [salt, sugar] \<and>
   (\<exists>x\<in>set (ingredients
        (addIngredient (Response 201 None) (Response 200 (Some [salt, sugar])) ingredient_page0)).
      name x = ''Sugar'')"
proof -
  let ?r = "Response 200 (Some [soup, cake]) :: recipe list fetch_result"
  let ?t = "Response 200 (Some [salt, sugar]) :: ingredient list fetch_result"
  have rn: "trim (addRecipeNameInput recipe_page0) = ''Cake''"
    by (simp add: example_defs string_ops)
  have ri: "trim (addRecipeInstructionsInput recipe_page0) \<noteq> []"
    by (simp add: example_defs string_ops)
  have rx: "\<exists>x\<in>set [soup, cake]. name x = ''Cake''"
    by (simp add: example_defs)
  have n: "trim (addIngredientNameInput ingredient_page0) = ''Sugar''"
    by (simp add: example_defs string_ops)
  have ix: "\<exists>x\<in>set [salt, sugar]. name x = ''Sugar''"
    by (simp add: example_defs)
  note inst = add_created_refreshes [of recipe_page0 None ?r ingredient_page0 None ?t]
  have pre1: "trim (addRecipeNameInput recipe_page0) \<noteq> [] \<and>
      trim (addRecipeInstructionsInput recipe_page0) \<noteq> []"
    using rn ri by simp
  have pre2: "trim (addIngredientNameInput ingredient_page0) \<noteq> []"
    using n by simp
  note a = inst [THEN conjunct1, THEN mp, OF pre1]
  note b = inst [THEN conjunct2, THEN mp, OF pre2]
  have a4: "?r = Response 200 (Some [soup, cake]) \<and> ok 200 \<and>
      (\<exists>x\<in>set [soup, cake]. name x = trim (addRecipeNameInput recipe_page0))"
    using rx by (simp only: rn ok_simps simp_thms)
  have b3: "?t = Response 200 (Some [salt, sugar]) \<and> ok 200 \<and>
      (\<exists>x\<in>set [salt, sugar]. name x = trim (addIngredientNameInput ingredient_page0))"
    using ix by (simp only: n ok_simps simp_thms)
  note a' = a [THEN conjunct2, THEN conjunct2, THEN conjunct2, THEN spec, THEN spec, THEN mp, OF a4]
  note b' = b [THEN conjunct2, THEN conjunct2, THEN spec, THEN spec, THEN mp, OF b3]
  show ?thesis
    using a [THEN conjunct1] a [THEN conjunct2, THEN conjunct1] a' [THEN conjunct1]
      a' [THEN conjunct2] b [THEN conjunct1] b' [THEN conjunct1] b' [THEN conjunct2]
    unfolding rn n by (intro conjI)
qed

section \<open>Updating a recipe\<close>

text \<open>
  C10. For every run of the update workflow whose inputs are non-empty after trimming and
  whose trimmed name resolves to a record of the list held by the page, the first request
  sent is a \<open>PUT\<close> to that record's URL whose body carries the record's own \<open>id\<close>, \<open>name\<close>
  and \<open>author\<close> and takes the instructions from the form (trimmed); the only request that
  may follow is the \<open>GET\<close> of the collection. The update workflow therefore sends no
  request that changes the name, the id or the author of a recipe.
\<close>

theorem updateRecipe_request_body:
  assumes "trim (updateRecipeNameInput p) \<noteq> []"
    and "trim (updateRecipeInstructionsInput p) \<noteq> []"
    and "findByName (trim (updateRecipeNameInput p)) (recipes p) = Some rcp"
  shows "\<exists>rest. sent (updateRecipe r1 r2 p) =
           sent p @
           \<lparr>httpMethod = PUT, url = RecipeUrl (ident rcp),
             authorization = Some (bearer (getToken p)), contentType = True,
             body = Some [(''id'', JNum (ident rcp)), (''name'', JStr (name rcp)),
                          (''instructions'', JStr (trim (updateRecipeInstructionsInput p))),
                          (''author'', author rcp)]\<rparr> # rest \<and>
           (\<forall>q\<in>set rest. httpMethod q = GET \<and> url q = RecipesUrl)"
  using assms
  by (simp add: recipe_defs session_ops browser_ops Let_def
      split: fetch_result.split option.split)

theorem updateRecipe_request_body_witness:
  "\<exists>rest. sent (updateRecipe (Response 200 None) (Response 200 (Some [stew])) recipe_page0) =
     \<lparr>httpMethod = PUT, url = RecipeUrl 1, authorization = Some ''Bearer tok'', contentType = True,
       body = Some [(''id'', JNum 1), (''name'', JStr ''Soup''), (''instructions'', JStr ''Simmer''),
                    (''author'', alice)]\<rparr> # rest"
proof -
  have a: "trim (updateRecipeNameInput recipe_page0) \<noteq> []"
    by (simp add: example_defs string_ops)
  have b: "trim (updateRecipeInstructionsInput recipe_page0) \<noteq> []"
    by (simp add: example_defs string_ops)
  have c: "findByName (trim (updateRecipeNameInput recipe_page0)) (recipes recipe_page0) = Some soup"
    by (simp add: findByName_def example_defs string_ops)
  have d: "trim (updateRecipeInstructionsInput recipe_page0) = ''Simmer''"
    by (simp add: example_defs string_ops)
  have e: "bearer (getToken recipe_page0) = ''Bearer tok''"
    by (simp add: bearer_def session_ops browser_ops example_defs)
  have f: "ident soup = 1 \<and> name soup = ''Soup'' \<and> author soup = alice \<and> sent recipe_page0 = []"
    by (simp add: example_defs)
  from updateRecipe_request_body [OF a b c, of "Response 200 None" "Response 200 (Some [stew])"]
  show ?thesis unfolding d e using f by auto
qed

section \<open>Failures\<close>

lemma recipe_failure_frame:
  assumes "failure_variant r1"
    and "w = SearchRecipes \<and> trim (searchInput p) \<noteq> [] \<longrightarrow> (\<forall>b. r1 \<noteq> Response 404 b)"
  shows "(\<exists>m. alerts (run_recipe w r1 r2 p) = alerts p @ [m]) \<and>
         (run_recipe w r1 r2 p)\<lparr>alerts := alerts p, console := console p, href := href p,
            sent := sent p\<rparr> = p \<and>
         (href (run_recipe w r1 r2 p) = href p \<or>
          (\<exists>b. r1 = Response 401 b) \<and> href (run_recipe w r1 r2 p) = Some loginPageUrl)"
proof (cases r1)
  case Rejected
  then show ?thesis
    by (cases w) (simp_all add: recipe_defs browser_ops Let_def split: option.split)
next
  case (Response s b)
  with assms have s: "\<not> ok s" by (simp add: failure_variant_def)
  from Response assms(2)
  have n: "w = SearchRecipes \<Longrightarrow> trim (searchInput p) \<noteq> [] \<Longrightarrow> s \<noteq> 404"
    by simp
  show ?thesis
  proof (cases w)
    case SearchRecipes
    then show ?thesis using s n Response
      by (simp add: recipe_defs browser_ops Let_def not_ok_simps)
  next
    case AddRecipe
    then show ?thesis using s Response
      by (simp add: recipe_defs browser_ops Let_def not_ok_simps)
  next
    case UpdateRecipe
    then show ?thesis using s Response
      by (simp add: recipe_defs browser_ops Let_def not_ok_simps split: option.split)
  next
    case DeleteRecipe
    then show ?thesis using s Response
      by (simp add: recipe_defs browser_ops Let_def not_ok_simps split: option.split)
  next
    case GetRecipes
    then show ?thesis using s Response
      by (simp add: recipe_defs browser_ops Let_def not_ok_simps)
  next
    case ProcessLogout
    then show ?thesis using s Response
      by (simp add: recipe_defs browser_ops Let_def not_ok_simps)
  qed
qed

lemma ingredient_failure_frame:
  assumes "failure_variant r1"
  shows "(\<exists>m. alerts (run_ingredient w r1 r2 p) = alerts p @ [m]) \<and>
         (run_ingredient w r1 r2 p)\<lparr>alerts := alerts p, console := console p, href := href p,
            sent := sent p\<rparr> = p \<and>
         (href (run_ingredient w r1 r2 p) = href p \<or>
          (\<exists>b. r1 = Response 401 b) \<and> href (run_ingredient w r1 r2 p) = Some loginPageUrl)"
proof (cases r1)
  case Rejected
  then show ?thesis
    by (cases w) (simp_all add: ingredient_defs browser_ops Let_def split: option.split)
next
  case (Response s b)
  with assms have s: "\<not> ok s" by (simp add: failure_variant_def)
  show ?thesis
  proof (cases w)
    case AddIngredient
    then show ?thesis using s Response
      by (simp add: ingredient_defs browser_ops Let_def not_ok_simps)
  next
    case DeleteIngredient
    then show ?thesis using s Response
      by (simp add: ingredient_defs browser_ops Let_def not_ok_simps split: option.split)
  next
    case GetIngredients
    then show ?thesis using s Response
      by (simp add: ingredient_defs browser_ops Let_def not_ok_simps)
  qed
qed

lemma login_failure_frame:
  assumes "failure_variant r"
  shows "(\<exists>m. alerts (processLogin r p) = alerts p @ [m]) \<and>
         (processLogin r p)\<lparr>alerts := alerts p, console := console p, sent := sent p\<rparr> = p"
proof (cases r)
  case Rejected
  then show ?thesis by (simp add: login_defs browser_ops Let_def)
next
  case (Response s b)
  with assms have "\<not> ok s" by (simp add: failure_variant_def)
  with Response show ?thesis by (simp add: login_defs browser_ops Let_def not_ok_simps)
qed

lemma registration_failure_frame:
  assumes "failure_variant r"
  shows "(\<exists>m. alerts (processRegistration r p) = alerts p @ [m]) \<and>
         (processRegistration r p)\<lparr>alerts := alerts p, console := console p, sent := sent p\<rparr> = p"
proof (cases r)
  case Rejected
  then show ?thesis by (simp add: register_defs browser_ops Let_def)
next
  case (Response s b)
  with assms have "\<not> ok s" by (simp add: failure_variant_def)
  with Response show ?thesis by (simp add: register_defs browser_ops Let_def not_ok_simps)
qed

lemma search_not_found:
  assumes "trim (searchInput p) \<noteq> []"
  shows "alerts (searchRecipes (Response 404 b) p) = alerts p \<and>
         recipes (searchRecipes (Response 404 b) p) = [] \<and>
         recipeListContainer (searchRecipes (Response 404 b) p) = []"
  using assms by (simp add: recipe_defs browser_ops Let_def ok_simps)

section \<open>Local checks and the request\<close>

lemma recipe_checks_passD:
  "recipe_local_error AddRecipe p = None \<Longrightarrow>
     trim (addRecipeNameInput p) \<noteq> [] \<and> trim (addRecipeInstructionsInput p) \<noteq> []"
  "recipe_local_error UpdateRecipe p = None \<Longrightarrow>
     trim (updateRecipeNameInput p) \<noteq> [] \<and> trim (updateRecipeInstructionsInput p) \<noteq> [] \<and>
     (\<exists>rcp. findByName (trim (updateRecipeNameInput p)) (recipes p) = Some rcp)"
  "recipe_local_error DeleteRecipe p = None \<Longrightarrow>
     trim (deleteRecipeNameInput p) \<noteq> [] \<and>
     (\<exists>rcp. findByName (trim (deleteRecipeNameInput p)) (recipes p) = Some rcp)"
  by (auto split: if_splits option.splits)

lemma ingredient_checks_passD:
  "ingredient_local_error AddIngredient p = None \<Longrightarrow> trim (addIngredientNameInput p) \<noteq> []"
  "ingredient_local_error DeleteIngredient p = None \<Longrightarrow>
     trim (deleteIngredientNameInput p) \<noteq> [] \<and>
     (\<exists>i. findByName (trim (deleteIngredientNameInput p)) (ingredients p) = Some i)"
  by (auto split: if_splits option.splits)

lemma login_checks_passD:
  "login_local_error p = None \<Longrightarrow> trim (usernameInput p) \<noteq> [] \<and> trim (passwordInput p) \<noteq> []"
  by (auto simp: login_local_error_def split: if_splits)

lemma registration_checks_passD:
  "registration_local_error p = None \<Longrightarrow>
     trim (regUsernameInput p) \<noteq> [] \<and> trim (emailInput p) \<noteq> [] \<and>
     trim (regPasswordInput p) \<noteq> [] \<and> trim (repeatPasswordInput p) \<noteq> [] \<and>
     trim (regPasswordInput p) = trim (repeatPasswordInput p)"
  by (auto simp: registration_local_error_def split: if_splits)

lemma recipe_local_error_aborts:
  assumes "recipe_local_error w p = Some m"
  shows "run_recipe w r1 r2 p = alert m p"
proof (cases w)
  case SearchRecipes
  with assms show ?thesis by simp
next
  case AddRecipe
  with assms have
    "(trim (addRecipeNameInput p) = [] \<or> trim (addRecipeInstructionsInput p) = []) \<and>
     m = ''Please provide both recipe name and instructions''"
    by (simp split: if_splits)
  with AddRecipe show ?thesis by (simp add: addRecipe_def Let_def)
next
  case UpdateRecipe
  with assms consider
    (blank) "trim (updateRecipeNameInput p) = [] \<or> trim (updateRecipeInstructionsInput p) = []"
      "m = ''Please provide both recipe name and new instructions''"
    | (unknown) "\<not> (trim (updateRecipeNameInput p) = [] \<or> trim (updateRecipeInstructionsInput p) = [])"
      "findByName (trim (updateRecipeNameInput p)) (recipes p) = None" "m = ''Recipe not found''"
    by (auto split: if_splits option.splits)
  then show ?thesis
  proof cases
    case blank
    with UpdateRecipe show ?thesis by (simp add: updateRecipe_def Let_def)
  next
    case unknown
    with UpdateRecipe show ?thesis by (simp add: updateRecipe_def Let_def)
  qed
next
  case DeleteRecipe
  with assms consider
    (blank) "trim (deleteRecipeNameInput p) = []" "m = ''Please provide a recipe name to delete''"
    | (unknown) "trim (deleteRecipeNameInput p) \<noteq> []"
      "findByName (trim (deleteRecipeNameInput p)) (recipes p) = None" "m = ''Recipe not found''"
    by (auto split: if_splits option.splits)
  then show ?thesis
  proof cases
    case blank
    with DeleteRecipe show ?thesis by (simp add: deleteRecipe_def Let_def)
  next
    case unknown
    with DeleteRecipe show ?thesis by (simp add: deleteRecipe_def Let_def)
  qed
next
  case GetRecipes
  with assms show ?thesis by simp
next
  case ProcessLogout
  with assms show ?thesis by simp
qed

lemma ingredient_local_error_aborts:
  assumes "ingredient_local_error w p = Some m"
  shows "run_ingredient w r1 r2 p = alert m p"
proof (cases w)
  case AddIngredient
  with assms have "trim (addIngredientNameInput p) = [] \<and> m = ''Please enter an ingredient name''"
    by (simp split: if_splits)
  with AddIngredient show ?thesis by (simp add: addIngredient_def Let_def)
next
  case DeleteIngredient
  with assms consider
    (blank) "trim (deleteIngredientNameInput p) = []"
      "m = ''Please enter an ingredient name to delete''"
    | (unknown) "trim (deleteIngredientNameInput p) \<noteq> []"
      "findByName (trim (deleteIngredientNameInput p)) (ingredients p) = None"
      "m = ''Ingredient not found''"
    by (auto split: if_splits option.splits)
  then show ?thesis
  proof cases
    case blank
    with DeleteIngredient show ?thesis by (simp add: deleteIngredient_def Let_def)
  next
    case unknown
    with DeleteIngredient show ?thesis by (simp add: deleteIngredient_def Let_def)
  qed
next
  case GetIngredients
  with assms show ?thesis by simp
qed

lemma login_local_error_aborts:
  assumes "login_local_error p = Some m"
  shows "processLogin r p = alert m p"
proof -
  from assms have "(trim (usernameInput p) = [] \<or> trim (passwordInput p) = []) \<and>
      m = ''Please enter both username and password''"
    by (simp add: login_local_error_def split: if_splits)
  then show ?thesis by (simp add: processLogin_def Let_def)
qed

lemma registration_local_error_aborts:
  assumes "registration_local_error p = Some m"
  shows "processRegistration r p = alert m p"
proof -
  from assms consider
    (blank) "trim (regUsernameInput p) = [] \<or> trim (emailInput p) = [] \<or>
       trim (regPasswordInput p) = [] \<or> trim (repeatPasswordInput p) = []"
      "m = ''Please fill in all fields''"
    | (differ) "\<not> (trim (regUsernameInput p) = [] \<or> trim (emailInput p) = [] \<or>
       trim (regPasswordInput p) = [] \<or> trim (repeatPasswordInput p) = [])"
      "trim (regPasswordInput p) \<noteq> trim (repeatPasswordInput p)" "m = ''Passwords do not match''"
    by (auto simp: registration_local_error_def split: if_splits)
  then show ?thesis
  proof cases
    case blank
    then show ?thesis by (simp add: processRegistration_def Let_def)
  next
    case differ
    then show ?thesis by (simp add: processRegistration_def Let_def)
  qed
qed

lemma recipe_checks_pass_sends:
  assumes "recipe_local_error w p = None"
  shows "length (sent p) < length (sent (run_recipe w r1 r2 p))"
proof (cases w)
  case SearchRecipes
  then show ?thesis
    by (simp add: recipe_defs sent_ops Let_def split: fetch_result.split option.split)
next
  case AddRecipe
  with recipe_checks_passD(1) [OF assms [unfolded AddRecipe]] show ?thesis
    by (simp add: addRecipe_def addRecipe_catch_def sent_ops length_sent_getRecipes Let_def
        split: fetch_result.split)
next
  case UpdateRecipe
  from recipe_checks_passD(2) [OF assms [unfolded UpdateRecipe]] obtain rcp where
    "trim (updateRecipeNameInput p) \<noteq> []" "trim (updateRecipeInstructionsInput p) \<noteq> []"
    "findByName (trim (updateRecipeNameInput p)) (recipes p) = Some rcp"
    by blast
  with UpdateRecipe show ?thesis
    by (simp add: updateRecipe_def updateRecipe_catch_def sent_ops length_sent_getRecipes
        Let_def split: fetch_result.split)
next
  case DeleteRecipe
  from recipe_checks_passD(3) [OF assms [unfolded DeleteRecipe]] obtain rcp where
    "trim (deleteRecipeNameInput p) \<noteq> []"
    "findByName (trim (deleteRecipeNameInput p)) (recipes p) = Some rcp"
    by blast
  with DeleteRecipe show ?thesis
    by (simp add: deleteRecipe_def deleteRecipe_catch_def sent_ops length_sent_getRecipes
        Let_def split: fetch_result.split)
next
  case GetRecipes
  then show ?thesis by (simp add: length_sent_getRecipes)
next
  case ProcessLogout
  then show ?thesis
    by (simp add: recipe_defs sent_ops Let_def split: fetch_result.split)
qed

lemma ingredient_checks_pass_sends:
  assumes "ingredient_local_error w p = None"
  shows "length (sent p) < length (sent (run_ingredient w r1 r2 p))"
proof (cases w)
  case AddIngredient
  with ingredient_checks_passD(1) [OF assms [unfolded AddIngredient]] show ?thesis
    by (simp add: addIngredient_def addIngredient_catch_def refreshIngredientList_def sent_ops
        length_sent_getIngredients Let_def split: fetch_result.split)
next
  case DeleteIngredient
  from ingredient_checks_passD(2) [OF assms [unfolded DeleteIngredient]] obtain i where
    "trim (deleteIngredientNameInput p) \<noteq> []"
    "findByName (trim (deleteIngredientNameInput p)) (ingredients p) = Some i"
    by blast
  with DeleteIngredient show ?thesis
    by (simp add: deleteIngredient_def deleteIngredient_catch_def refreshIngredientList_def
        sent_ops length_sent_getIngredients Let_def split: fetch_result.split)
next
  case GetIngredients
  then show ?thesis by (simp add: length_sent_getIngredients)
qed

lemma login_checks_pass_sends:
  assumes "login_local_error p = None"
  shows "length (sent p) < length (sent (processLogin r p))"
  using login_checks_passD [OF assms]
  by (simp add: login_defs sent_ops Let_def split_beta split: fetch_result.split option.split)

lemma registration_checks_pass_sends:
  assumes "registration_local_error p = None"
  shows "length (sent p) < length (sent (processRegistration r p))"
  using registration_checks_passD [OF assms]
  by (simp add: register_defs sent_ops Let_def split: fetch_result.split)

lemma recipe_sent_checks_pass:
  assumes "sent (run_recipe w r1 r2 p) \<noteq> sent p"
  shows "recipe_local_error w p = None"
proof (cases "recipe_local_error w p")
  case None
  then show ?thesis .
next
  case (Some m)
  from recipe_local_error_aborts [OF this, of r1 r2] assms show ?thesis
    by (simp add: sent_ops)
qed

lemma ingredient_sent_checks_pass:
  assumes "sent (run_ingredient w r1 r2 p) \<noteq> sent p"
  shows "ingredient_local_error w p = None"
proof (cases "ingredient_local_error w p")
  case None
  then show ?thesis .
next
  case (Some m)
  from ingredient_local_error_aborts [OF this, of r1 r2] assms show ?thesis
    by (simp add: sent_ops)
qed

lemma login_sent_checks_pass:
  assumes "sent (processLogin r p) \<noteq> sent p"
  shows "login_local_error p = None"
proof (cases "login_local_error p")
  case None
  then show ?thesis .
next
  case (Some m)
  from login_local_error_aborts [OF this, of r] assms show ?thesis
    by (simp add: sent_ops)
qed

lemma registration_sent_checks_pass:
  assumes "sent (processRegistration r p) \<noteq> sent p"
  shows "registration_local_error p = None"
proof (cases "registration_local_error p")
  case None
  then show ?thesis .
next
  case (Some m)
  from registration_local_error_aborts [OF this, of r] assms show ?thesis
    by (simp add: sent_ops)
qed

section \<open>A transport failure\<close>

lemma recipe_rejected_message:
  assumes "recipe_local_error w p = None"
  shows "alerts (run_recipe w Rejected r2 p) =
           alerts p @
           [case w of
              SearchRecipes \<Rightarrow>
                if trim (searchInput p) = [] then ''Error fetching recipes''
                else ''Failed to search recipes''
            | AddRecipe \<Rightarrow> ''Error adding recipe''
            | UpdateRecipe \<Rightarrow> ''Error updating recipe''
            | DeleteRecipe \<Rightarrow> ''Error deleting recipe''
            | GetRecipes \<Rightarrow> ''Error fetching recipes''
            | ProcessLogout \<Rightarrow> ''Error during logout'']"
proof (cases w)
  case SearchRecipes
  then show ?thesis by (simp add: recipe_defs browser_ops Let_def)
next
  case AddRecipe
  with recipe_checks_passD(1) [OF assms [unfolded AddRecipe]] show ?thesis
    by (simp add: recipe_defs browser_ops Let_def)
next
  case UpdateRecipe
  from recipe_checks_passD(2) [OF assms [unfolded UpdateRecipe]] obtain rcp where
    "trim (updateRecipeNameInput p) \<noteq> []" "trim (updateRecipeInstructionsInput p) \<noteq> []"
    "findByName (trim (updateRecipeNameInput p)) (recipes p) = Some rcp"
    by blast
  with UpdateRecipe show ?thesis by (simp add: recipe_defs browser_ops Let_def)
next
  case DeleteRecipe
  from recipe_checks_passD(3) [OF assms [unfolded DeleteRecipe]] obtain rcp where
    "trim (deleteRecipeNameInput p) \<noteq> []"
    "findByName (trim (deleteRecipeNameInput p)) (recipes p) = Some rcp"
    by blast
  with DeleteRecipe show ?thesis by (simp add: recipe_defs browser_ops Let_def)
next
  case GetRecipes
  then show ?thesis by (simp add: recipe_defs browser_ops Let_def)
next
  case ProcessLogout
  then show ?thesis by (simp add: recipe_defs browser_ops Let_def)
qed

lemma ingredient_rejected_message:
  assumes "ingredient_local_error w p = None"
  shows "alerts (run_ingredient w Rejected r2 p) =
           alerts p @
           [case w of
              AddIngredient \<Rightarrow> ''Error adding ingredient''
            | DeleteIngredient \<Rightarrow> ''Error deleting ingredient''
            | GetIngredients \<Rightarrow> ''Error fetching ingredients'']"
proof (cases w)
  case AddIngredient
  with ingredient_checks_passD(1) [OF assms [unfolded AddIngredient]] show ?thesis
    by (simp add: ingredient_defs browser_ops Let_def)
next
  case DeleteIngredient
  from ingredient_checks_passD(2) [OF assms [unfolded DeleteIngredient]] obtain i where
    "trim (deleteIngredientNameInput p) \<noteq> []"
    "findByName (trim (deleteIngredientNameInput p)) (ingredients p) = Some i"
    by blast
  with DeleteIngredient show ?thesis by (simp add: ingredient_defs browser_ops Let_def)
next
  case GetIngredients
  then show ?thesis by (simp add: ingredient_defs browser_ops Let_def)
qed

lemma login_rejected_message:
  assumes "login_local_error p = None"
  shows "alerts (processLogin Rejected p) =
           alerts p @ [''Network error occurred. Please try again.'']"
  using login_checks_passD [OF assms] by (simp add: login_defs browser_ops Let_def)

lemma registration_rejected_message:
  assumes "registration_local_error p = None"
  shows "alerts (processRegistration Rejected p) =
           alerts p @ [''An error occurred during registration. Please try again.'']"
  using registration_checks_passD [OF assms] by (simp add: register_defs browser_ops Let_def)

section \<open>A failure of the fetch that follows a successful mutation\<close>

lemma recipe_refetch_frame:
  assumes "recipe_mutation w" and "recipe_local_error w p = None" and "recipe_accepts w s"
    and "failure_variant r2"
  shows "(\<exists>m. alerts (run_recipe w (Response s b) r2 p) = alerts p @ [m]) \<and>
         recipes (run_recipe w (Response s b) r2 p) = recipes p \<and>
         recipeListContainer (run_recipe w (Response s b) r2 p) = recipeListContainer p \<and>
         sessionStorage (run_recipe w (Response s b) r2 p) = sessionStorage p \<and>
         (href (run_recipe w (Response s b) r2 p) = href p \<or>
          (\<exists>b'. r2 = Response 401 b') \<and>
          href (run_recipe w (Response s b) r2 p) = Some loginPageUrl)"
proof -
  from assms(1) consider "w = AddRecipe" | "w = UpdateRecipe" | "w = DeleteRecipe"
    by (auto simp: recipe_mutation_def)
  then show ?thesis
  proof cases
    case 1
    note v = recipe_checks_passD(1) [OF assms(2) [unfolded 1]]
    from assms(3) 1 have s: "s = 201" by simp
    show ?thesis
    proof (cases r2)
      case Rejected
      with 1 v s show ?thesis by (simp add: recipe_defs browser_ops Let_def)
    next
      case (Response s2 b2)
      with assms(4) have "\<not> ok s2" by (simp add: failure_variant_def)
      with Response 1 v s show ?thesis
        by (simp add: recipe_defs browser_ops Let_def not_ok_simps)
    qed
  next
    case 2
    from recipe_checks_passD(2) [OF assms(2) [unfolded 2]] obtain rcp where v:
      "trim (updateRecipeNameInput p) \<noteq> []" "trim (updateRecipeInstructionsInput p) \<noteq> []"
      "findByName (trim (updateRecipeNameInput p)) (recipes p) = Some rcp"
      by blast
    from assms(3) 2 have s: "ok s" by simp
    show ?thesis
    proof (cases r2)
      case Rejected
      with 2 v s show ?thesis by (simp add: recipe_defs browser_ops Let_def)
    next
      case (Response s2 b2)
      with assms(4) have "\<not> ok s2" by (simp add: failure_variant_def)
      with Response 2 v s show ?thesis
        by (simp add: recipe_defs browser_ops Let_def not_ok_simps)
    qed
  next
    case 3
    from recipe_checks_passD(3) [OF assms(2) [unfolded 3]] obtain rcp where v:
      "trim (deleteRecipeNameInput p) \<noteq> []"
      "findByName (trim (deleteRecipeNameInput p)) (recipes p) = Some rcp"
      by blast
    from assms(3) 3 have s: "ok s" by simp
    show ?thesis
    proof (cases r2)
      case Rejected
      with 3 v s show ?thesis by (simp add: recipe_defs browser_ops Let_def)
    next
      case (Response s2 b2)
      with assms(4) have "\<not> ok s2" by (simp add: failure_variant_def)
      with Response 3 v s show ?thesis
        by (simp add: recipe_defs browser_ops Let_def not_ok_simps)
    qed
  qed
qed

lemma recipe_refetch_unauthorized:
  assumes "recipe_mutation w" and "recipe_local_error w p = None" and "recipe_accepts w s"
  shows "href (run_recipe w (Response s b) (Response 401 b') p) = Some loginPageUrl \<and>
         alerts (run_recipe w (Response s b) (Response 401 b') p) =
           alerts p @ [''Unauthorized: Please login'']"
proof -
  from assms(1) consider "w = AddRecipe" | "w = UpdateRecipe" | "w = DeleteRecipe"
    by (auto simp: recipe_mutation_def)
  then show ?thesis
  proof cases
    case 1
    note v = recipe_checks_passD(1) [OF assms(2) [unfolded 1]]
    from assms(3) 1 have "s = 201" by simp
    with 1 v show ?thesis by (simp add: recipe_defs browser_ops Let_def ok_simps)
  next
    case 2
    from recipe_checks_passD(2) [OF assms(2) [unfolded 2]] obtain rcp where v:
      "trim (updateRecipeNameInput p) \<noteq> []" "trim (updateRecipeInstructionsInput p) \<noteq> []"
      "findByName (trim (updateRecipeNameInput p)) (recipes p) = Some rcp"
      by blast
    from assms(3) 2 have "ok s" by simp
    with 2 v show ?thesis by (simp add: recipe_defs browser_ops Let_def ok_simps)
  next
    case 3
    from recipe_checks_passD(3) [OF assms(2) [unfolded 3]] obtain rcp where v:
      "trim (deleteRecipeNameInput p) \<noteq> []"
      "findByName (trim (deleteRecipeNameInput p)) (recipes p) = Some rcp"
      by blast
    from assms(3) 3 have "ok s" by simp
    with 3 v show ?thesis by (simp add: recipe_defs browser_ops Let_def ok_simps)
  qed
qed

lemma ingredient_refetch_frame:
  assumes "ingredient_mutation w" and "ingredient_local_error w p = None"
    and "ingredient_accepts w s" and "failure_variant r2"
  shows "(\<exists>m. alerts (run_ingredient w (Response s b) r2 p) = alerts p @ [m]) \<and>
         ingredients (run_ingredient w (Response s b) r2 p) = ingredients p \<and>
         ingredientListContainer (run_ingredient w (Response s b) r2 p) =
           map name (ingredients p) \<and>
         sessionStorage (run_ingredient w (Response s b) r2 p) = sessionStorage p \<and>
         (href (run_ingredient w (Response s b) r2 p) = href p \<or>
          (\<exists>b'. r2 = Response 401 b') \<and>
          href (run_ingredient w (Response s b) r2 p) = Some loginPageUrl)"
proof -
  from assms(1) consider "w = AddIngredient" | "w = DeleteIngredient"
    by (auto simp: ingredient_mutation_def)
  then show ?thesis
  proof cases
    case 1
    note v = ingredient_checks_passD(1) [OF assms(2) [unfolded 1]]
    from assms(3) 1 have s: "s = 201" by simp
    show ?thesis
    proof (cases r2)
      case Rejected
      with 1 v s show ?thesis by (simp add: ingredient_defs browser_ops Let_def)
    next
      case (Response s2 b2)
      with assms(4) have "\<not> ok s2" by (simp add: failure_variant_def)
      with Response 1 v s show ?thesis
        by (simp add: ingredient_defs browser_ops Let_def not_ok_simps)
    qed
  next
    case 2
    from ingredient_checks_passD(2) [OF assms(2) [unfolded 2]] obtain i where v:
      "trim (deleteIngredientNameInput p) \<noteq> []"
      "findByName (trim (deleteIngredientNameInput p)) (ingredients p) = Some i"
      by blast
    from assms(3) 2 have s: "s = 204 \<or> s = 200" by simp
    show ?thesis
    proof (cases r2)
      case Rejected
      with 2 v s show ?thesis by (simp add: ingredient_defs browser_ops Let_def)
    next
      case (Response s2 b2)
      with assms(4) have "\<not> ok s2" by (simp add: failure_variant_def)
      with Response 2 v s show ?thesis
        by (simp add: ingredient_defs browser_ops Let_def not_ok_simps)
    qed
  qed
qed

lemma ingredient_refetch_unauthorized:
  assumes "ingredient_mutation w" and "ingredient_local_error w p = None"
    and "ingredient_accepts w s"
  shows "href (run_ingredient w (Response s b) (Response 401 b') p) = Some loginPageUrl \<and>
         alerts (run_ingredient w (Response s b) (Response 401 b') p) =
           alerts p @ [''Unauthorized: Please login'']"
proof -
  from assms(1) consider "w = AddIngredient" | "w = DeleteIngredient"
    by (auto simp: ingredient_mutation_def)
  then show ?thesis
  proof cases
    case 1
    note v = ingredient_checks_passD(1) [OF assms(2) [unfolded 1]]
    from assms(3) 1 have "s = 201" by simp
    with 1 v show ?thesis by (simp add: ingredient_defs browser_ops Let_def ok_simps)
  next
    case 2
    from ingredient_checks_passD(2) [OF assms(2) [unfolded 2]] obtain i where v:
      "trim (deleteIngredientNameInput p) \<noteq> []"
      "findByName (trim (deleteIngredientNameInput p)) (ingredients p) = Some i"
      by blast
    from assms(3) 2 have "s = 204 \<or> s = 200" by simp
    with 2 v show ?thesis by (simp add: ingredient_defs browser_ops Let_def ok_simps)
  qed
qed

section \<open>A status the workflow does not accept\<close>

lemma recipe_unaccepted_frame:
  assumes "\<not> recipe_accepts w s"
    and "w = SearchRecipes \<and> trim (searchInput p) \<noteq> [] \<longrightarrow> s \<noteq> 404"
  shows "(\<exists>m. alerts (run_recipe w (Response s b) r2 p) = alerts p @ [m]) \<and>
         (run_recipe w (Response s b) r2 p)\<lparr>alerts := alerts p, console := console p,
            href := href p, sent := sent p\<rparr> = p \<and>
         (href (run_recipe w (Response s b) r2 p) = href p \<or>
          s = 401 \<and> href (run_recipe w (Response s b) r2 p) = Some loginPageUrl)"
proof (cases w)
  case SearchRecipes
  with assms show ?thesis by (simp add: recipe_defs browser_ops Let_def)
next
  case AddRecipe
  with assms show ?thesis by (simp add: recipe_defs browser_ops Let_def)
next
  case UpdateRecipe
  with assms show ?thesis by (simp add: recipe_defs browser_ops Let_def split: option.split)
next
  case DeleteRecipe
  with assms show ?thesis by (simp add: recipe_defs browser_ops Let_def split: option.split)
next
  case GetRecipes
  with assms show ?thesis by (simp add: recipe_defs browser_ops Let_def)
next
  case ProcessLogout
  with assms show ?thesis by (simp add: recipe_defs browser_ops Let_def)
qed

lemma ingredient_unaccepted_frame:
  assumes "\<not> ingredient_accepts w s"
  shows "(\<exists>m. alerts (run_ingredient w (Response s b) r2 p) = alerts p @ [m]) \<and>
         (run_ingredient w (Response s b) r2 p)\<lparr>alerts := alerts p, console := console p,
            href := href p, sent := sent p\<rparr> = p \<and>
         (href (run_ingredient w (Response s b) r2 p) = href p \<or>
          s = 401 \<and> href (run_ingredient w (Response s b) r2 p) = Some loginPageUrl)"
proof (cases w)
  case AddIngredient
  with assms show ?thesis by (simp add: ingredient_defs browser_ops Let_def)
next
  case DeleteIngredient
  with assms show ?thesis
    by (simp add: ingredient_defs browser_ops Let_def split: option.split)
next
  case GetIngredients
  with assms show ?thesis by (simp add: ingredient_defs browser_ops Let_def)
qed

lemma login_unaccepted_frame:
  assumes "\<not> login_accepts s"
  shows "(\<exists>m. alerts (processLogin (Response s b) p) = alerts p @ [m]) \<and>
         (processLogin (Response s b) p)\<lparr>alerts := alerts p, console := console p,
            sent := sent p\<rparr> = p"
  using assms by (simp add: login_accepts_def login_defs browser_ops Let_def)

lemma registration_unaccepted_frame:
  assumes "\<not> registration_accepts s"
  shows "(\<exists>m. alerts (processRegistration (Response s b) p) = alerts p @ [m]) \<and>
         (processRegistration (Response s b) p)\<lparr>alerts := alerts p, console := console p,
            sent := sent p\<rparr> = p"
  using assms by (simp add: registration_accepts_def register_defs browser_ops Let_def)

section \<open>Unauthorized responses\<close>

text \<open>
  C1, as the specification states it, fails: an add request answered by 401 leaves the token
  and the admin flag in the session storage and navigates nowhere; the user only sees a
  message. A list fetch answered by 401 navigates to the login page, and keeps the session
  too.
\<close>

theorem unauthorized_add_keeps_session:
  "getToken (run_recipe AddRecipe (Response 401 None) Rejected recipe_page0) = Some ''tok'' \<and>
   getItem ''is-admin'' (run_recipe AddRecipe (Response 401 None) Rejected recipe_page0) =
     Some ''false'' \<and>
   href (run_recipe AddRecipe (Response 401 None) Rejected recipe_page0) = None \<and>
   alerts (run_recipe AddRecipe (Response 401 None) Rejected recipe_page0) =
     [''Unauthorized: Please login again''] \<and>
   getToken (run_recipe GetRecipes (Response 401 None) Rejected recipe_page0) = Some ''tok'' \<and>
   href (run_recipe GetRecipes (Response 401 None) Rejected recipe_page0) = Some loginPageUrl"
  by (simp add: recipe_defs session_ops browser_ops example_defs string_ops Let_def ok_simps)

text \<open>
  C1, amended. On the recipe page and on the ingredient page a 401 response never changes
  the stored session: the token and the admin flag stay in the session storage (no workflow
  of these pages but a logout changes the storage, whatever the responses, and a logout
  answered by 401 does not). A 401 answering the first request of a workflow shows exactly
  one message and changes nothing of the page but the console, the network log and the
  navigation; the navigation changes, to the login page, exactly when the request is the
  fetch of the whole list (\<open>getRecipes\<close>, a search with a blank term, \<open>getIngredients\<close>),
  so a 401 answering an add, update, delete, search or logout request navigates nowhere.
  A 401 answering the fetch of the list that follows a successful add, update or delete
  (local checks passed, status accepted) shows the message of the list fetch and navigates
  to the login page.
\<close>

theorem unauthorized_session_kept:
  "sessionStorage (run_recipe w (Response 401 b) r2 p) = sessionStorage p \<and>
   href (run_recipe w (Response 401 b) r2 p) =
     (if w = GetRecipes \<or> (w = SearchRecipes \<and> trim (searchInput p) = [])
      then Some loginPageUrl else href p) \<and>
   sessionStorage (run_ingredient wi (Response 401 c) t2 q) = sessionStorage q \<and>
   href (run_ingredient wi (Response 401 c) t2 q) =
     (if wi = GetIngredients then Some loginPageUrl else href q) \<and>
   (w \<noteq> ProcessLogout \<longrightarrow> sessionStorage (run_recipe w r1 r2 p) = sessionStorage p) \<and>
   sessionStorage (run_ingredient wi t1 t2 q) = sessionStorage q \<and>
   ((\<exists>m. alerts (run_recipe w (Response 401 b) r2 p) = alerts p @ [m]) \<and>
    (run_recipe w (Response 401 b) r2 p)\<lparr>alerts := alerts p, console := console p,
       href := href p, sent := sent p\<rparr> = p) \<and>
   ((\<exists>m. alerts (run_ingredient wi (Response 401 c) t2 q) = alerts q @ [m]) \<and>
    (run_ingredient wi (Response 401 c) t2 q)\<lparr>alerts := alerts q, console := console q,
       href := href q, sent := sent q\<rparr> = q) \<and>
   (recipe_mutation w \<and> recipe_local_error w p = None \<and> recipe_accepts w s \<longrightarrow>
      href (run_recipe w (Response s b) (Response 401 b') p) = Some loginPageUrl \<and>
      alerts (run_recipe w (Response s b) (Response 401 b') p) =
        alerts p @ [''Unauthorized: Please login'']) \<and>
   (ingredient_mutation wi \<and> ingredient_local_error wi q = None \<and> ingredient_accepts wi s \<longrightarrow>
      href (run_ingredient wi (Response s c) (Response 401 c') q) = Some loginPageUrl \<and>
      alerts (run_ingredient wi (Response s c) (Response 401 c') q) =
        alerts q @ [''Unauthorized: Please login''])"
proof -
  have a: "sessionStorage (run_recipe w (Response 401 b) r2 p) = sessionStorage p"
  proof (cases "w = ProcessLogout")
    case True
    then show ?thesis by (simp add: processLogout_session ok_simps)
  next
    case False
    then show ?thesis by (rule recipe_session_kept)
  qed
  have b: "href (run_recipe w (Response 401 b) r2 p) =
     (if w = GetRecipes \<or> (w = SearchRecipes \<and> trim (searchInput p) = [])
      then Some loginPageUrl else href p)"
    by (cases w)
       (simp_all add: recipe_defs browser_ops Let_def ok_simps split: option.split)
  have c: "href (run_ingredient wi (Response 401 c) t2 q) =
     (if wi = GetIngredients then Some loginPageUrl else href q)"
    by (cases wi)
       (simp_all add: ingredient_defs browser_ops Let_def ok_simps split: option.split)
  have d: "w \<noteq> ProcessLogout \<longrightarrow> sessionStorage (run_recipe w r1 r2 p) = sessionStorage p"
    by (simp add: recipe_session_kept)
  have f1: "failure_variant (Response 401 b)" for b :: "'x option"
    by (simp add: failure_variant_def ok_simps)
  have f2: "w = SearchRecipes \<and> trim (searchInput p) \<noteq> [] \<longrightarrow>
      (\<forall>b''. Response 401 b \<noteq> Response 404 b'')"
    by simp
  note rf = recipe_failure_frame [OF f1 f2, of r2]
  note e = conjI [OF rf [THEN conjunct1] rf [THEN conjunct2, THEN conjunct1]]
  note gf = ingredient_failure_frame [OF f1, of wi c t2 q]
  note g = conjI [OF gf [THEN conjunct1] gf [THEN conjunct2, THEN conjunct1]]
  have h: "recipe_mutation w \<and> recipe_local_error w p = None \<and> recipe_accepts w s \<longrightarrow>
      href (run_recipe w (Response s b) (Response 401 b') p) = Some loginPageUrl \<and>
      alerts (run_recipe w (Response s b) (Response 401 b') p) =
        alerts p @ [''Unauthorized: Please login'']"
    using recipe_refetch_unauthorized [of w p s b b'] by blast
  have i: "ingredient_mutation wi \<and> ingredient_local_error wi q = None \<and>
      ingredient_accepts wi s \<longrightarrow>
      href (run_ingredient wi (Response s c) (Response 401 c') q) = Some loginPageUrl \<and>
      alerts (run_ingredient wi (Response s c) (Response 401 c') q) =
        alerts q @ [''Unauthorized: Please login'']"
    using ingredient_refetch_unauthorized [of wi q s c c'] by blast
  show ?thesis
    by (rule conjI [OF a conjI [OF b conjI [OF ingredient_session_kept conjI [OF c conjI [OF d
          conjI [OF ingredient_session_kept conjI [OF e conjI [OF g conjI [OF h i]]]]]]]]])
qed

theorem unauthorized_session_kept_witness:
  "sessionStorage (run_recipe AddRecipe (Response 201 None) (Response 401 None) recipe_page0) =
     session0 \<and>
   href (run_recipe DeleteRecipe (Response 401 None) Rejected recipe_page0) = None \<and>
   href (run_ingredient GetIngredients (Response 401 None) Rejected ingredient_page0) =
     Some loginPageUrl \<and>
   href (run_recipe AddRecipe (Response 201 None) (Response 401 None) recipe_page0) =
     Some loginPageUrl \<and>
   alerts (run_recipe AddRecipe (Response 201 None) (Response 401 None) recipe_page0) =
     [''Unauthorized: Please login''] \<and>
   href (run_ingredient DeleteIngredient (Response 204 None) (Response 401 None) ingredient_page0) =
     Some loginPageUrl"
proof -
  have n: "AddRecipe \<noteq> ProcessLogout" by simp
  have s: "sessionStorage recipe_page0 = session0" "href recipe_page0 = None"
    "alerts recipe_page0 = []"
    by (simp_all add: example_defs)
  have ra: "recipe_mutation AddRecipe \<and> recipe_local_error AddRecipe recipe_page0 = None \<and>
      recipe_accepts AddRecipe 201"
    by (simp add: recipe_mutation_def example_defs string_ops)
  have ia: "ingredient_mutation DeleteIngredient \<and>
      ingredient_local_error DeleteIngredient ingredient_page0 = None \<and>
      ingredient_accepts DeleteIngredient 204"
    by (simp add: ingredient_mutation_def findByName_def example_defs string_ops)
  note i1 = unauthorized_session_kept [of AddRecipe None "Response 401 None" recipe_page0
      GetIngredients None Rejected ingredient_page0 "Response 201 None" Rejected 201 None None]
  note i2 = unauthorized_session_kept [of DeleteRecipe None Rejected recipe_page0
      GetIngredients None Rejected ingredient_page0 Rejected Rejected 201 None None]
  note i3 = unauthorized_session_kept [of AddRecipe None "Response 401 None" recipe_page0
      DeleteIngredient None Rejected ingredient_page0 "Response 201 None" Rejected 204 None None]
  from i1 n have x: "sessionStorage (run_recipe AddRecipe (Response 201 None) (Response 401 None)
      recipe_page0) = sessionStorage recipe_page0"
    by blast
  from i2 have y: "href (run_recipe DeleteRecipe (Response 401 None) Rejected recipe_page0) =
      href recipe_page0"
    by simp
  from i2 have z: "href (run_ingredient GetIngredients (Response 401 None) Rejected
      ingredient_page0) = Some loginPageUrl"
    by simp
  note k = i1 [THEN conjunct2, THEN conjunct2, THEN conjunct2, THEN conjunct2, THEN conjunct2,
      THEN conjunct2, THEN conjunct2, THEN conjunct2, THEN conjunct1, THEN mp, OF ra]
  note l = i3 [THEN conjunct2, THEN conjunct2, THEN conjunct2, THEN conjunct2, THEN conjunct2,
      THEN conjunct2, THEN conjunct2, THEN conjunct2, THEN conjunct2, THEN mp, OF ia]
  from k s have k2: "alerts (run_recipe AddRecipe (Response 201 None) (Response 401 None)
      recipe_page0) = [''Unauthorized: Please login'']"
    by simp
  from x y z s k [THEN conjunct1] k2 l [THEN conjunct1] show ?thesis by simp
qed

section \<open>Failures abort with one message\<close>

text \<open>
  C2, as the specification states it, fails: a search with a non-blank term answered by 404
  (the remote not-found variant) shows no message and replaces the list held by the page,
  and the rendered list, by the empty list.
\<close>

theorem search_not_found_empties_mirror:
  "alerts (run_recipe SearchRecipes (Response 404 None) Rejected recipe_page0) = [] \<and>
   recipes recipe_page0 = [soup, stew, soup_again] \<and>
   recipes (run_recipe SearchRecipes (Response 404 None) Rejected recipe_page0) = [] \<and>
   recipeListContainer (run_recipe SearchRecipes (Response 404 None) Rejected recipe_page0) = []"
  by (simp add: recipe_defs browser_ops example_defs string_ops Let_def ok_simps)

text \<open>
  C2, amended. The failure variants are those the claim lists: a validation error, a name
  not found in the list held by the page, and a first request that fails by a transport
  failure or by a status outside 200 to 299 (401, 403, 404, 409 or any other).
  A workflow whose local check fails shows exactly the message of that check, sends no
  request and changes nothing else; a workflow whose checks pass sends its request. A
  workflow whose first request fails shows exactly one message and, but for the console,
  the network log and the navigation, leaves the page as it was: no input is cleared, the
  list and its rendering are not replaced, the session storage is not changed; the
  navigation changes only on a 401, to the login page, and not at all on the login and
  registration pages. The same holds of every status the workflow does not accept, the
  statuses from 200 to 299 that a workflow testing for one exact status rejects included.
  The one exception is a search with a non-blank term answered by 404, which is an empty
  result: no message, and the list becomes empty.
  When an add, update or delete has succeeded and the fetch of the list that follows fails,
  exactly one message is shown, the list is not replaced and the session storage is not
  changed (the ingredient page renders the unchanged list again); the navigation changes
  only on a 401.
\<close>

theorem failure_single_message:
  "(recipe_local_error w p = Some m \<longrightarrow>
      run_recipe w r1 r2 p = alert m p \<and> sent (run_recipe w r1 r2 p) = sent p) \<and>
   (recipe_local_error w p = None \<longrightarrow>
      sent (run_recipe w r1 r2 p) \<noteq> sent p) \<and>
   (failure_variant r1 \<and>
    (w = SearchRecipes \<and> trim (searchInput p) \<noteq> [] \<longrightarrow> (\<forall>b. r1 \<noteq> Response 404 b)) \<longrightarrow>
      (\<exists>m. alerts (run_recipe w r1 r2 p) = alerts p @ [m]) \<and>
      (run_recipe w r1 r2 p)\<lparr>alerts := alerts p, console := console p, href := href p,
         sent := sent p\<rparr> = p \<and>
      (href (run_recipe w r1 r2 p) = href p \<or>
       (\<exists>b. r1 = Response 401 b) \<and> href (run_recipe w r1 r2 p) = Some loginPageUrl)) \<and>
   (trim (searchInput p) \<noteq> [] \<longrightarrow>
      alerts (searchRecipes (Response 404 b) p) = alerts p \<and>
      recipes (searchRecipes (Response 404 b) p) = [] \<and>
      recipeListContainer (searchRecipes (Response 404 b) p) = []) \<and>
   (recipe_mutation w \<and> recipe_local_error w p = None \<and> recipe_accepts w s \<and>
    failure_variant r2 \<longrightarrow>
      (\<exists>m. alerts (run_recipe w (Response s b) r2 p) = alerts p @ [m]) \<and>
      recipes (run_recipe w (Response s b) r2 p) = recipes p \<and>
      recipeListContainer (run_recipe w (Response s b) r2 p) =
        recipeListContainer p \<and>
      sessionStorage (run_recipe w (Response s b) r2 p) = sessionStorage p \<and>
      (href (run_recipe w (Response s b) r2 p) = href p \<or>
       (\<exists>b'. r2 = Response 401 b') \<and> href (run_recipe w (Response s b) r2 p) = Some loginPageUrl)) \<and>
   (ingredient_local_error wi q = Some mi \<longrightarrow>
      run_ingredient wi t1 t2 q = alert mi q \<and> sent (run_ingredient wi t1 t2 q) = sent q) \<and>
   (ingredient_local_error wi q = None \<longrightarrow>
      sent (run_ingredient wi t1 t2 q) \<noteq> sent q) \<and>
   (failure_variant t1 \<longrightarrow>
      (\<exists>m. alerts (run_ingredient wi t1 t2 q) = alerts q @ [m]) \<and>
      (run_ingredient wi t1 t2 q)\<lparr>alerts := alerts q, console := console q, href := href q,
         sent := sent q\<rparr> = q \<and>
      (href (run_ingredient wi t1 t2 q) = href q \<or>
       (\<exists>b. t1 = Response 401 b) \<and> href (run_ingredient wi t1 t2 q) = Some loginPageUrl)) \<and>
   (ingredient_mutation wi \<and> ingredient_local_error wi q = None \<and> ingredient_accepts wi s \<and>
    failure_variant t2 \<longrightarrow>
      (\<exists>m. alerts (run_ingredient wi (Response s c) t2 q) = alerts q @ [m]) \<and>
      ingredients (run_ingredient wi (Response s c) t2 q) = ingredients q \<and>
      ingredientListContainer (run_ingredient wi (Response s c) t2 q) =
        map name (ingredients q) \<and>
      sessionStorage (run_ingredient wi (Response s c) t2 q) = sessionStorage q \<and>
      (href (run_ingredient wi (Response s c) t2 q) = href q \<or>
       (\<exists>b'. t2 = Response 401 b') \<and> href (run_ingredient wi (Response s c) t2 q) = Some loginPageUrl)) \<and>
   (login_local_error lp = Some ml \<longrightarrow>
      processLogin l lp = alert ml lp \<and> sent (processLogin l lp) = sent lp) \<and>
   (login_local_error lp = None \<longrightarrow>
      sent (processLogin l lp) \<noteq> sent lp) \<and>
   (failure_variant l \<longrightarrow>
      (\<exists>m. alerts (processLogin l lp) = alerts lp @ [m]) \<and>
      (processLogin l lp)\<lparr>alerts := alerts lp, console := console lp, sent := sent lp\<rparr> = lp) \<and>
   (registration_local_error gp = Some mg \<longrightarrow>
      processRegistration g gp = alert mg gp \<and> sent (processRegistration g gp) = sent gp) \<and>
   (registration_local_error gp = None \<longrightarrow>
      sent (processRegistration g gp) \<noteq> sent gp) \<and>
   (failure_variant g \<longrightarrow>
      (\<exists>m. alerts (processRegistration g gp) = alerts gp @ [m]) \<and>
      (processRegistration g gp)\<lparr>alerts := alerts gp, console := console gp, sent := sent gp\<rparr> = gp) \<and>
   (\<not> recipe_accepts w u \<and>
    (w = SearchRecipes \<and> trim (searchInput p) \<noteq> [] \<longrightarrow> u \<noteq> 404) \<longrightarrow>
      (\<exists>m. alerts (run_recipe w (Response u b) r2 p) = alerts p @ [m]) \<and>
      (run_recipe w (Response u b) r2 p)\<lparr>alerts := alerts p, console := console p, href := href p,
         sent := sent p\<rparr> = p \<and>
      (href (run_recipe w (Response u b) r2 p) = href p \<or>
       u = 401 \<and> href (run_recipe w (Response u b) r2 p) = Some loginPageUrl)) \<and>
   (\<not> ingredient_accepts wi u \<longrightarrow>
      (\<exists>m. alerts (run_ingredient wi (Response u c) t2 q) = alerts q @ [m]) \<and>
      (run_ingredient wi (Response u c) t2 q)\<lparr>alerts := alerts q, console := console q, href := href q,
         sent := sent q\<rparr> = q \<and>
      (href (run_ingredient wi (Response u c) t2 q) = href q \<or>
       u = 401 \<and> href (run_ingredient wi (Response u c) t2 q) = Some loginPageUrl)) \<and>
   (\<not> login_accepts u \<longrightarrow>
      (\<exists>m. alerts (processLogin (Response u x) lp) = alerts lp @ [m]) \<and>
      (processLogin (Response u x) lp)\<lparr>alerts := alerts lp, console := console lp, sent := sent lp\<rparr> = lp) \<and>
   (\<not> registration_accepts u \<longrightarrow>
      (\<exists>m. alerts (processRegistration (Response u y) gp) = alerts gp @ [m]) \<and>
      (processRegistration (Response u y) gp)\<lparr>alerts := alerts gp, console := console gp, sent := sent gp\<rparr> = gp)"
proof -
  have c1: "recipe_local_error w p = Some m \<longrightarrow>
      run_recipe w r1 r2 p = alert m p \<and> sent (run_recipe w r1 r2 p) = sent p"
    using recipe_local_error_aborts [of w p m r1 r2] by (simp add: sent_ops)
  have c2: "recipe_local_error w p = None \<longrightarrow>
      sent (run_recipe w r1 r2 p) \<noteq> sent p"
    using recipe_checks_pass_sends [of w p r1 r2] by auto
  have c3: "failure_variant r1 \<and>
    (w = SearchRecipes \<and> trim (searchInput p) \<noteq> [] \<longrightarrow> (\<forall>b. r1 \<noteq> Response 404 b)) \<longrightarrow>
      (\<exists>m. alerts (run_recipe w r1 r2 p) = alerts p @ [m]) \<and>
      (run_recipe w r1 r2 p)\<lparr>alerts := alerts p, console := console p, href := href p,
         sent := sent p\<rparr> = p \<and>
      (href (run_recipe w r1 r2 p) = href p \<or>
       (\<exists>b. r1 = Response 401 b) \<and> href (run_recipe w r1 r2 p) = Some loginPageUrl)"
    using recipe_failure_frame [of r1 w p r2] by blast
  have c4: "trim (searchInput p) \<noteq> [] \<longrightarrow>
      alerts (searchRecipes (Response 404 b) p) = alerts p \<and>
      recipes (searchRecipes (Response 404 b) p) = [] \<and>
      recipeListContainer (searchRecipes (Response 404 b) p) = []"
    using search_not_found [of p b] by blast
  have c5: "recipe_mutation w \<and> recipe_local_error w p = None \<and> recipe_accepts w s \<and>
    failure_variant r2 \<longrightarrow>
      (\<exists>m. alerts (run_recipe w (Response s b) r2 p) = alerts p @ [m]) \<and>
      recipes (run_recipe w (Response s b) r2 p) = recipes p \<and>
      recipeListContainer (run_recipe w (Response s b) r2 p) =
        recipeListContainer p \<and>
      sessionStorage (run_recipe w (Response s b) r2 p) = sessionStorage p \<and>
      (href (run_recipe w (Response s b) r2 p) = href p \<or>
       (\<exists>b'. r2 = Response 401 b') \<and> href (run_recipe w (Response s b) r2 p) = Some loginPageUrl)"
    using recipe_refetch_frame [of w p s r2 b] by blast
  have c6: "ingredient_local_error wi q = Some mi \<longrightarrow>
      run_ingredient wi t1 t2 q = alert mi q \<and> sent (run_ingredient wi t1 t2 q) = sent q"
    using ingredient_local_error_aborts [of wi q mi t1 t2] by (simp add: sent_ops)
  have c7: "ingredient_local_error wi q = None \<longrightarrow>
      sent (run_ingredient wi t1 t2 q) \<noteq> sent q"
    using ingredient_checks_pass_sends [of wi q t1 t2] by auto
  have c8: "failure_variant t1 \<longrightarrow>
      (\<exists>m. alerts (run_ingredient wi t1 t2 q) = alerts q @ [m]) \<and>
      (run_ingredient wi t1 t2 q)\<lparr>alerts := alerts q, console := console q, href := href q,
         sent := sent q\<rparr> = q \<and>
      (href (run_ingredient wi t1 t2 q) = href q \<or>
       (\<exists>b. t1 = Response 401 b) \<and> href (run_ingredient wi t1 t2 q) = Some loginPageUrl)"
    using ingredient_failure_frame [of t1 wi t2 q] by blast
  have c9: "ingredient_mutation wi \<and> ingredient_local_error wi q = None \<and> ingredient_accepts wi s \<and>
    failure_variant t2 \<longrightarrow>
      (\<exists>m. alerts (run_ingredient wi (Response s c) t2 q) = alerts q @ [m]) \<and>
      ingredients (run_ingredient wi (Response s c) t2 q) = ingredients q \<and>
      ingredientListContainer (run_ingredient wi (Response s c) t2 q) =
        map name (ingredients q) \<and>
      sessionStorage (run_ingredient wi (Response s c) t2 q) = sessionStorage q \<and>
      (href (run_ingredient wi (Response s c) t2 q) = href q \<or>
       (\<exists>b'. t2 = Response 401 b') \<and> href (run_ingredient wi (Response s c) t2 q) = Some loginPageUrl)"
    using ingredient_refetch_frame [of wi q s t2 c] by blast
  have c10: "login_local_error lp = Some ml \<longrightarrow>
      processLogin l lp = alert ml lp \<and> sent (processLogin l lp) = sent lp"
    using login_local_error_aborts [of lp ml l] by (simp add: sent_ops)
  have c11: "login_local_error lp = None \<longrightarrow>
      sent (processLogin l lp) \<noteq> sent lp"
    using login_checks_pass_sends [of lp l] by auto
  have c12: "failure_variant l \<longrightarrow>
      (\<exists>m. alerts (processLogin l lp) = alerts lp @ [m]) \<and>
      (processLogin l lp)\<lparr>alerts := alerts lp, console := console lp, sent := sent lp\<rparr> = lp"
    using login_failure_frame [of l lp] by blast
  have c13: "registration_local_error gp = Some mg \<longrightarrow>
      processRegistration g gp = alert mg gp \<and> sent (processRegistration g gp) = sent gp"
    using registration_local_error_aborts [of gp mg g] by (simp add: sent_ops)
  have c14: "registration_local_error gp = None \<longrightarrow>
      sent (processRegistration g gp) \<noteq> sent gp"
    using registration_checks_pass_sends [of gp g] by auto
  have c15: "failure_variant g \<longrightarrow>
      (\<exists>m. alerts (processRegistration g gp) = alerts gp @ [m]) \<and>
      (processRegistration g gp)\<lparr>alerts := alerts gp, console := console gp, sent := sent gp\<rparr> = gp"
    using registration_failure_frame [of g gp] by blast
  have c16: "\<not> recipe_accepts w u \<and>
    (w = SearchRecipes \<and> trim (searchInput p) \<noteq> [] \<longrightarrow> u \<noteq> 404) \<longrightarrow>
      (\<exists>m. alerts (run_recipe w (Response u b) r2 p) = alerts p @ [m]) \<and>
      (run_recipe w (Response u b) r2 p)\<lparr>alerts := alerts p, console := console p, href := href p,
         sent := sent p\<rparr> = p \<and>
      (href (run_recipe w (Response u b) r2 p) = href p \<or>
       u = 401 \<and> href (run_recipe w (Response u b) r2 p) = Some loginPageUrl)"
    using recipe_unaccepted_frame [of w u p b r2] by blast
  have c17: "\<not> ingredient_accepts wi u \<longrightarrow>
      (\<exists>m. alerts (run_ingredient wi (Response u c) t2 q) = alerts q @ [m]) \<and>
      (run_ingredient wi (Response u c) t2 q)\<lparr>alerts := alerts q, console := console q, href := href q,
         sent := sent q\<rparr> = q \<and>
      (href (run_ingredient wi (Response u c) t2 q) = href q \<or>
       u = 401 \<and> href (run_ingredient wi (Response u c) t2 q) = Some loginPageUrl)"
    using ingredient_unaccepted_frame [of wi u c t2 q] by blast
  have c18: "\<not> login_accepts u \<longrightarrow>
      (\<exists>m. alerts (processLogin (Response u x) lp) = alerts lp @ [m]) \<and>
      (processLogin (Response u x) lp)\<lparr>alerts := alerts lp, console := console lp, sent := sent lp\<rparr> = lp"
    using login_unaccepted_frame [of u x lp] by blast
  have c19: "\<not> registration_accepts u \<longrightarrow>
      (\<exists>m. alerts (processRegistration (Response u y) gp) = alerts gp @ [m]) \<and>
      (processRegistration (Response u y) gp)\<lparr>alerts := alerts gp, console := console gp, sent := sent gp\<rparr> = gp"
    using registration_unaccepted_frame [of u y gp] by blast
  show ?thesis
    by (rule conjI [OF c1 conjI [OF c2 conjI [OF c3 conjI [OF c4 conjI [OF c5 conjI [OF c6 conjI [OF c7 conjI [OF c8 conjI [OF c9 conjI [OF c10 conjI [OF c11 conjI [OF c12 conjI [OF c13 conjI [OF c14 conjI [OF c15 conjI [OF c16 conjI [OF c17 conjI [OF c18 c19]]]]]]]]]]]]]]]]]])
qed

theorem failure_single_message_witness:
  "run_recipe UpdateRecipe Rejected Rejected (recipe_page0\<lparr>updateRecipeNameInput := ''Pie''\<rparr>) =
     alert ''Recipe not found'' (recipe_page0\<lparr>updateRecipeNameInput := ''Pie''\<rparr>) \<and>
   sent (run_recipe DeleteRecipe (Response 403 None) (Response 500 None) recipe_page0) \<noteq> sent recipe_page0 \<and>
   (run_recipe DeleteRecipe (Response 403 None) (Response 500 None) recipe_page0)\<lparr>alerts := alerts recipe_page0,
      console := console recipe_page0, href := href recipe_page0, sent := sent recipe_page0\<rparr> =
     recipe_page0 \<and>
   recipes (searchRecipes (Response 404 None) recipe_page0) = [] \<and>
   recipes (run_recipe DeleteRecipe (Response 204 None) (Response 500 None) recipe_page0) =
     recipes recipe_page0 \<and>
   run_ingredient DeleteIngredient Rejected Rejected (ingredient_page0\<lparr>deleteIngredientNameInput := ''  ''\<rparr>) =
     alert ''Please enter an ingredient name to delete'' (ingredient_page0\<lparr>deleteIngredientNameInput := ''  ''\<rparr>) \<and>
   sent (run_ingredient DeleteIngredient Rejected (Response 401 None) ingredient_page0) \<noteq>
     sent ingredient_page0 \<and>
   (\<exists>m. alerts (run_ingredient DeleteIngredient Rejected (Response 401 None) ingredient_page0) =
      alerts ingredient_page0 @ [m]) \<and>
   ingredients (run_ingredient DeleteIngredient (Response 204 None) (Response 401 None) ingredient_page0) =
     ingredients ingredient_page0 \<and>
   processLogin Rejected (login_page0\<lparr>passwordInput := []\<rparr>) =
     alert ''Please enter both username and password'' (login_page0\<lparr>passwordInput := []\<rparr>) \<and>
   sent (processLogin (Response 401 None) login_page0) \<noteq> sent login_page0 \<and>
   (\<exists>m. alerts (processLogin (Response 401 None) login_page0) = alerts login_page0 @ [m]) \<and>
   processRegistration (Rejected :: unit fetch_result) (register_page0\<lparr>repeatPasswordInput := ''px''\<rparr>) =
     alert ''Passwords do not match'' (register_page0\<lparr>repeatPasswordInput := ''px''\<rparr>) \<and>
   sent (processRegistration (Response 409 (None :: unit option)) register_page0) \<noteq>
     sent register_page0 \<and>
   (\<exists>m. alerts (processRegistration (Response 409 (None :: unit option)) register_page0) =
      alerts register_page0 @ [m]) \<and>
   (\<exists>m. alerts (run_recipe AddRecipe (Response 202 None) (Response 500 None) recipe_page0) =
      alerts recipe_page0 @ [m]) \<and>
   (\<exists>m. alerts (run_ingredient DeleteIngredient (Response 202 None) (Response 401 None) ingredient_page0) =
      alerts ingredient_page0 @ [m]) \<and>
   (\<exists>m. alerts (processLogin (Response 202 None) login_page0) = alerts login_page0 @ [m]) \<and>
   (\<exists>m. alerts (processRegistration (Response 202 (None :: unit option)) register_page0) =
      alerts register_page0 @ [m])"
proof -
  note iA = failure_single_message
    [of UpdateRecipe "(recipe_page0\<lparr>updateRecipeNameInput := ''Pie''\<rparr>)"
      "''Recipe not found''" Rejected Rejected None 204 DeleteIngredient
      "(ingredient_page0\<lparr>deleteIngredientNameInput := ''  ''\<rparr>)"
      "''Please enter an ingredient name to delete''" Rejected Rejected None
      "(login_page0\<lparr>passwordInput := []\<rparr>)"
      "''Please enter both username and password''" Rejected
      "(register_page0\<lparr>repeatPasswordInput := ''px''\<rparr>)" "''Passwords do not match''"
      "(Rejected :: unit fetch_result)" 202 None "(None :: unit option)"]
  note iB = failure_single_message
    [of DeleteRecipe recipe_page0 "''x''" "Response 403 None" "Response 500 None"
      None 204 DeleteIngredient ingredient_page0 "''x''" Rejected "Response 401 None"
      None login_page0 "''x''" "Response 401 None" register_page0 "''x''"
      "Response 409 (None :: unit option)" 202 None "(None :: unit option)"]
  note iC = failure_single_message
    [of AddRecipe recipe_page0 "''x''" "Response 403 None" "Response 500 None"
      None 204 DeleteIngredient ingredient_page0 "''x''" Rejected "Response 401 None"
      None login_page0 "''x''" "Response 401 None" register_page0 "''x''"
      "Response 409 (None :: unit option)" 202 None "(None :: unit option)"]
  have h1:
      "recipe_local_error UpdateRecipe (recipe_page0\<lparr>updateRecipeNameInput := ''Pie''\<rparr>) = Some ''Recipe not found''"
    by (simp add: findByName_def example_defs string_ops)
  note w1 = iA [THEN conjunct1, THEN mp, OF h1, THEN conjunct1]
  have h2: "recipe_local_error DeleteRecipe recipe_page0 = None"
    by (simp add: findByName_def example_defs string_ops)
  note w2 = iB [THEN conjunct2, THEN conjunct1, THEN mp, OF h2]
  have h3: "failure_variant (Response 403 None :: recipe list fetch_result) \<and>
      (DeleteRecipe = SearchRecipes \<and> trim (searchInput recipe_page0) \<noteq> [] \<longrightarrow>
        (\<forall>b. (Response 403 None :: recipe list fetch_result) \<noteq> Response 404 b))"
    by (simp add: failure_variant_def ok_simps)
  note w3 = iB [THEN conjunct2, THEN conjunct2, THEN conjunct1, THEN mp, OF h3, THEN conjunct2,
      THEN conjunct1]
  have h4: "trim (searchInput recipe_page0) \<noteq> []"
    by (simp add: example_defs string_ops)
  note w4 = iB [THEN conjunct2, THEN conjunct2, THEN conjunct2, THEN conjunct1, THEN mp, OF h4,
      THEN conjunct2, THEN conjunct1]
  have h5:
      "recipe_mutation DeleteRecipe \<and> recipe_local_error DeleteRecipe recipe_page0 = None \<and>
      recipe_accepts DeleteRecipe 204 \<and>
      failure_variant (Response 500 None :: recipe list fetch_result)"
    by (simp add: recipe_mutation_def failure_variant_def ok_simps findByName_def example_defs
        string_ops)
  note w5 = iB [THEN conjunct2, THEN conjunct2, THEN conjunct2, THEN conjunct2, THEN conjunct1,
      THEN mp, OF h5, THEN conjunct2, THEN conjunct1]
  have h6:
      "ingredient_local_error DeleteIngredient (ingredient_page0\<lparr>deleteIngredientNameInput := ''  ''\<rparr>) =
      Some ''Please enter an ingredient name to delete''"
    by (simp add: example_defs string_ops)
  note w6 = iA [THEN conjunct2, THEN conjunct2, THEN conjunct2, THEN conjunct2, THEN conjunct2,
      THEN conjunct1, THEN mp, OF h6, THEN conjunct1]
  have h7: "ingredient_local_error DeleteIngredient ingredient_page0 = None"
    by (simp add: findByName_def example_defs string_ops)
  note w7 = iB [THEN conjunct2, THEN conjunct2, THEN conjunct2, THEN conjunct2, THEN conjunct2,
      THEN conjunct2, THEN conjunct1, THEN mp, OF h7]
  have h8: "failure_variant (Rejected :: ingredient list fetch_result)"
    by (simp add: failure_variant_def)
  note w8 = iB [THEN conjunct2, THEN conjunct2, THEN conjunct2, THEN conjunct2, THEN conjunct2,
      THEN conjunct2, THEN conjunct2, THEN conjunct1, THEN mp, OF h8, THEN conjunct1]
  have h9: "ingredient_mutation DeleteIngredient \<and>
      ingredient_local_error DeleteIngredient ingredient_page0 = None \<and>
      ingredient_accepts DeleteIngredient 204 \<and>
      failure_variant (Response 401 None :: ingredient list fetch_result)"
    by (simp add: ingredient_mutation_def failure_variant_def ok_simps findByName_def example_defs
        string_ops)
  note w9 = iB [THEN conjunct2, THEN conjunct2, THEN conjunct2, THEN conjunct2, THEN conjunct2,
      THEN conjunct2, THEN conjunct2, THEN conjunct2, THEN conjunct1, THEN mp, OF h9,
      THEN conjunct2, THEN conjunct1]
  have h10:
      "login_local_error (login_page0\<lparr>passwordInput := []\<rparr>) = Some ''Please enter both username and password''"
    by (simp add: login_local_error_def example_defs string_ops)
  note w10 = iA [THEN conjunct2, THEN conjunct2, THEN conjunct2, THEN conjunct2, THEN conjunct2,
      THEN conjunct2, THEN conjunct2, THEN conjunct2, THEN conjunct2, THEN conjunct1, THEN mp,
      OF h10, THEN conjunct1]
  have h11: "login_local_error login_page0 = None"
    by (simp add: login_local_error_def example_defs string_ops)
  note w11 = iB [THEN conjunct2, THEN conjunct2, THEN conjunct2, THEN conjunct2, THEN conjunct2,
      THEN conjunct2, THEN conjunct2, THEN conjunct2, THEN conjunct2, THEN conjunct2,
      THEN conjunct1, THEN mp, OF h11]
  have h12: "failure_variant (Response 401 None :: string fetch_result)"
    by (simp add: failure_variant_def ok_simps)
  note w12 = iB [THEN conjunct2, THEN conjunct2, THEN conjunct2, THEN conjunct2, THEN conjunct2,
      THEN conjunct2, THEN conjunct2, THEN conjunct2, THEN conjunct2, THEN conjunct2,
      THEN conjunct2, THEN conjunct1, THEN mp, OF h12, THEN conjunct1]
  have h13:
      "registration_local_error (register_page0\<lparr>repeatPasswordInput := ''px''\<rparr>) = Some ''Passwords do not match''"
    by (simp add: registration_local_error_def example_defs string_ops)
  note w13 = iA [THEN conjunct2, THEN conjunct2, THEN conjunct2, THEN conjunct2, THEN conjunct2,
      THEN conjunct2, THEN conjunct2, THEN conjunct2, THEN conjunct2, THEN conjunct2,
      THEN conjunct2, THEN conjunct2, THEN conjunct1, THEN mp, OF h13, THEN conjunct1]
  have h14: "registration_local_error register_page0 = None"
    by (simp add: registration_local_error_def example_defs string_ops)
  note w14 = iB [THEN conjunct2, THEN conjunct2, THEN conjunct2, THEN conjunct2, THEN conjunct2,
      THEN conjunct2, THEN conjunct2, THEN conjunct2, THEN conjunct2, THEN conjunct2,
      THEN conjunct2, THEN conjunct2, THEN conjunct2, THEN conjunct1, THEN mp, OF h14]
  have h15: "failure_variant (Response 409 (None :: unit option))"
    by (simp add: failure_variant_def ok_simps)
  note w15 = iB [THEN conjunct2, THEN conjunct2, THEN conjunct2, THEN conjunct2, THEN conjunct2,
      THEN conjunct2, THEN conjunct2, THEN conjunct2, THEN conjunct2, THEN conjunct2,
      THEN conjunct2, THEN conjunct2, THEN conjunct2, THEN conjunct2, THEN conjunct1, THEN mp,
      OF h15, THEN conjunct1]
  have h16: "\<not> recipe_accepts AddRecipe 202 \<and>
      (AddRecipe = SearchRecipes \<and> trim (searchInput recipe_page0) \<noteq> [] \<longrightarrow> (202 :: int) \<noteq> 404)"
    by simp
  note w16 = iC [THEN conjunct2, THEN conjunct2, THEN conjunct2, THEN conjunct2, THEN conjunct2,
      THEN conjunct2, THEN conjunct2, THEN conjunct2, THEN conjunct2, THEN conjunct2,
      THEN conjunct2, THEN conjunct2, THEN conjunct2, THEN conjunct2, THEN conjunct2,
      THEN conjunct1, THEN mp, OF h16, THEN conjunct1]
  have h17: "\<not> ingredient_accepts DeleteIngredient 202"
    by simp
  note w17 = iB [THEN conjunct2, THEN conjunct2, THEN conjunct2, THEN conjunct2, THEN conjunct2,
      THEN conjunct2, THEN conjunct2, THEN conjunct2, THEN conjunct2, THEN conjunct2,
      THEN conjunct2, THEN conjunct2, THEN conjunct2, THEN conjunct2, THEN conjunct2,
      THEN conjunct2, THEN conjunct1, THEN mp, OF h17, THEN conjunct1]
  have h18: "\<not> login_accepts 202"
    by (simp add: login_accepts_def)
  note w18 = iB [THEN conjunct2, THEN conjunct2, THEN conjunct2, THEN conjunct2, THEN conjunct2,
      THEN conjunct2, THEN conjunct2, THEN conjunct2, THEN conjunct2, THEN conjunct2,
      THEN conjunct2, THEN conjunct2, THEN conjunct2, THEN conjunct2, THEN conjunct2,
      THEN conjunct2, THEN conjunct2, THEN conjunct1, THEN mp, OF h18, THEN conjunct1]
  have h19: "\<not> registration_accepts 202"
    by (simp add: registration_accepts_def)
  note w19 = iB [THEN conjunct2, THEN conjunct2, THEN conjunct2, THEN conjunct2, THEN conjunct2,
      THEN conjunct2, THEN conjunct2, THEN conjunct2, THEN conjunct2, THEN conjunct2,
      THEN conjunct2, THEN conjunct2, THEN conjunct2, THEN conjunct2, THEN conjunct2,
      THEN conjunct2, THEN conjunct2, THEN conjunct2, THEN mp, OF h19, THEN conjunct1]
  from w1 w2 w3 w4 w5 w6 w7 w8 w9 w10 w11 w12 w13 w14 w15 w16 w17 w18 w19
  show ?thesis by (intro conjI)
qed

section \<open>The message of each failure\<close>

text \<open>
  C4, as the specification states it, fails: \<open>addRecipe\<close> answers a 403 and a 409 with the
  message it gives for a 500, and so does \<open>updateRecipe\<close> for a 403.
\<close>

theorem add_recipe_forbidden_generic:
  "alerts (run_recipe AddRecipe (Response 403 None) Rejected recipe_page0) =
     [''Failed to add recipe''] \<and>
   alerts (run_recipe AddRecipe (Response 409 None) Rejected recipe_page0) =
     [''Failed to add recipe''] \<and>
   alerts (run_recipe AddRecipe (Response 500 None) Rejected recipe_page0) =
     [''Failed to add recipe''] \<and>
   alerts (run_recipe UpdateRecipe (Response 403 None) Rejected recipe_page0) =
     [''Failed to update recipe'']"
  by (simp add: recipe_defs browser_ops findByName_def example_defs string_ops Let_def ok_simps)

text \<open>
  C4, amended. A workflow that issues a request and receives a status outside 200 to 299
  shows the message of the first status test of its own chain that matches, and its generic
  failure message otherwise. A 401 has a message of its own in \<open>addRecipe\<close>,
  \<open>updateRecipe\<close>, \<open>deleteRecipe\<close>, \<open>getRecipes\<close>, \<open>addIngredient\<close>, \<open>deleteIngredient\<close>,
  \<open>getIngredients\<close> and the login; a 403 has the admin-access-required message only in
  \<open>deleteRecipe\<close>, \<open>addIngredient\<close> and \<open>deleteIngredient\<close>; a 404 has a not-found message
  only in \<open>deleteIngredient\<close> (a search with a non-blank term shows no message for it); a
  409 has the already-exists message only in the registration. Every other status, and
  these statuses in the other workflows, get the generic failure message of the workflow.
  A workflow that issues a request and meets a transport failure shows the message of its
  own catch branch.
\<close>

theorem failure_message_table:
  "(\<not> ok s \<and> sent (run_recipe w (Response s b) r2 p) \<noteq> sent p \<and>
    \<not> (w = SearchRecipes \<and> trim (searchInput p) \<noteq> [] \<and> s = 404) \<longrightarrow>
      alerts (run_recipe w (Response s b) r2 p) =
        alerts p @
        [case w of
           SearchRecipes \<Rightarrow>
             if trim (searchInput p) = [] then
               (if s = 401 then ''Unauthorized: Please login'' else ''Failed to fetch recipes'')
             else ''Error searching recipes''
         | AddRecipe \<Rightarrow>
             if s = 401 then ''Unauthorized: Please login again'' else ''Failed to add recipe''
         | UpdateRecipe \<Rightarrow>
             if s = 401 then ''Unauthorized: Please login again'' else ''Failed to update recipe''
         | DeleteRecipe \<Rightarrow>
             if s = 401 then ''Unauthorized: Please login again''
             else if s = 403 then ''Forbidden: Admin access required''
             else ''Failed to delete recipe''
         | GetRecipes \<Rightarrow>
             if s = 401 then ''Unauthorized: Please login'' else ''Failed to fetch recipes''
         | ProcessLogout \<Rightarrow> ''Logout failed'']) \<and>
   (\<not> ok s \<and> sent (run_ingredient wi (Response s c) t2 q) \<noteq> sent q \<longrightarrow>
      alerts (run_ingredient wi (Response s c) t2 q) =
        alerts q @
        [case wi of
           AddIngredient \<Rightarrow>
             if s = 401 then ''Unauthorized: Please login again''
             else if s = 403 then ''Forbidden: Admin access required''
             else ''Failed to add ingredient''
         | DeleteIngredient \<Rightarrow>
             if s = 401 then ''Unauthorized: Please login again''
             else if s = 403 then ''Forbidden: Admin access required''
             else if s = 404 then ''Ingredient not found''
             else ''Failed to delete ingredient''
         | GetIngredients \<Rightarrow>
             if s = 401 then ''Unauthorized: Please login'' else ''Failed to fetch ingredients'']) \<and>
   (\<not> ok s \<and> sent (processLogin (Response s l) lp) \<noteq> sent lp \<longrightarrow>
      alerts (processLogin (Response s l) lp) =
        alerts lp @ [if s = 401 then ''Incorrect login!'' else ''Unknown issue!'']) \<and>
   (\<not> ok s \<and> sent (processRegistration (Response s g) gp) \<noteq> sent gp \<longrightarrow>
      alerts (processRegistration (Response s g) gp) =
        alerts gp @
        [if s = 409 then ''User or email already exists''
         else ''Registration error. Please try again.'']) \<and>
   (sent (run_recipe w Rejected r2 p) \<noteq> sent p \<longrightarrow>
      alerts (run_recipe w Rejected r2 p) =
        alerts p @
        [case w of
           SearchRecipes \<Rightarrow>
             if trim (searchInput p) = [] then ''Error fetching recipes''
             else ''Failed to search recipes''
         | AddRecipe \<Rightarrow> ''Error adding recipe''
         | UpdateRecipe \<Rightarrow> ''Error updating recipe''
         | DeleteRecipe \<Rightarrow> ''Error deleting recipe''
         | GetRecipes \<Rightarrow> ''Error fetching recipes''
         | ProcessLogout \<Rightarrow> ''Error during logout'']) \<and>
   (sent (run_ingredient wi Rejected t2 q) \<noteq> sent q \<longrightarrow>
      alerts (run_ingredient wi Rejected t2 q) =
        alerts q @
        [case wi of
           AddIngredient \<Rightarrow> ''Error adding ingredient''
         | DeleteIngredient \<Rightarrow> ''Error deleting ingredient''
         | GetIngredients \<Rightarrow> ''Error fetching ingredients'']) \<and>
   (sent (processLogin Rejected lp) \<noteq> sent lp \<longrightarrow>
      alerts (processLogin Rejected lp) =
        alerts lp @ [''Network error occurred. Please try again.'']) \<and>
   (sent (processRegistration (Rejected :: unit fetch_result) gp) \<noteq> sent gp \<longrightarrow>
      alerts (processRegistration (Rejected :: unit fetch_result) gp) =
        alerts gp @ [''An error occurred during registration. Please try again.''])"
proof -
  have recipe:
    "alerts (run_recipe w (Response s b) r2 p) =
        alerts p @
        [case w of
           SearchRecipes \<Rightarrow>
             if trim (searchInput p) = [] then
               (if s = 401 then ''Unauthorized: Please login'' else ''Failed to fetch recipes'')
             else ''Error searching recipes''
         | AddRecipe \<Rightarrow>
             if s = 401 then ''Unauthorized: Please login again'' else ''Failed to add recipe''
         | UpdateRecipe \<Rightarrow>
             if s = 401 then ''Unauthorized: Please login again'' else ''Failed to update recipe''
         | DeleteRecipe \<Rightarrow>
             if s = 401 then ''Unauthorized: Please login again''
             else if s = 403 then ''Forbidden: Admin access required''
             else ''Failed to delete recipe''
         | GetRecipes \<Rightarrow>
             if s = 401 then ''Unauthorized: Please login'' else ''Failed to fetch recipes''
         | ProcessLogout \<Rightarrow> ''Logout failed'']"
    if h: "\<not> ok s" "sent (run_recipe w (Response s b) r2 p) \<noteq> sent p"
      "\<not> (w = SearchRecipes \<and> trim (searchInput p) \<noteq> [] \<and> s = 404)"
  proof (cases w)
    case SearchRecipes
    with h(1,3) show ?thesis
      by (auto simp add: recipe_defs browser_ops Let_def not_ok_simps)
  next
    case AddRecipe
    show ?thesis
    proof (cases "trim (addRecipeNameInput p) = [] \<or> trim (addRecipeInstructionsInput p) = []")
      case True
      with AddRecipe h(2) show ?thesis by (simp add: addRecipe_def sent_ops Let_def)
    next
      case False
      with AddRecipe h(1) show ?thesis
        by (simp add: recipe_defs browser_ops Let_def not_ok_simps)
    qed
  next
    case UpdateRecipe
    show ?thesis
    proof (cases "trim (updateRecipeNameInput p) = [] \<or> trim (updateRecipeInstructionsInput p) = []")
      case True
      with UpdateRecipe h(2) show ?thesis by (simp add: updateRecipe_def sent_ops Let_def)
    next
      case False
      show ?thesis
      proof (cases "findByName (trim (updateRecipeNameInput p)) (recipes p)")
        case None
        with False UpdateRecipe h(2) show ?thesis by (simp add: updateRecipe_def sent_ops Let_def)
      next
        case (Some rcp)
        with False UpdateRecipe h(1) show ?thesis
          by (simp add: recipe_defs browser_ops Let_def not_ok_simps)
      qed
    qed
  next
    case DeleteRecipe
    show ?thesis
    proof (cases "trim (deleteRecipeNameInput p) = []")
      case True
      with DeleteRecipe h(2) show ?thesis by (simp add: deleteRecipe_def sent_ops Let_def)
    next
      case False
      show ?thesis
      proof (cases "findByName (trim (deleteRecipeNameInput p)) (recipes p)")
        case None
        with False DeleteRecipe h(2) show ?thesis by (simp add: deleteRecipe_def sent_ops Let_def)
      next
        case (Some rcp)
        with False DeleteRecipe h(1) show ?thesis
          by (simp add: recipe_defs browser_ops Let_def not_ok_simps)
      qed
    qed
  next
    case GetRecipes
    with h(1) show ?thesis
      by (simp add: recipe_defs browser_ops Let_def not_ok_simps)
  next
    case ProcessLogout
    with h(1) show ?thesis
      by (simp add: recipe_defs browser_ops Let_def not_ok_simps)
  qed
  have ingredient:
    "alerts (run_ingredient wi (Response s c) t2 q) =
        alerts q @
        [case wi of
           AddIngredient \<Rightarrow>
             if s = 401 then ''Unauthorized: Please login again''
             else if s = 403 then ''Forbidden: Admin access required''
             else ''Failed to add ingredient''
         | DeleteIngredient \<Rightarrow>
             if s = 401 then ''Unauthorized: Please login again''
             else if s = 403 then ''Forbidden: Admin access required''
             else if s = 404 then ''Ingredient not found''
             else ''Failed to delete ingredient''
         | GetIngredients \<Rightarrow>
             if s = 401 then ''Unauthorized: Please login'' else ''Failed to fetch ingredients'']"
    if h: "\<not> ok s" "sent (run_ingredient wi (Response s c) t2 q) \<noteq> sent q"
  proof (cases wi)
    case AddIngredient
    show ?thesis
    proof (cases "trim (addIngredientNameInput q) = []")
      case True
      with AddIngredient h(2) show ?thesis by (simp add: addIngredient_def sent_ops Let_def)
    next
      case False
      with AddIngredient h(1) show ?thesis
        by (simp add: ingredient_defs browser_ops Let_def not_ok_simps)
    qed
  next
    case DeleteIngredient
    show ?thesis
    proof (cases "trim (deleteIngredientNameInput q) = []")
      case True
      with DeleteIngredient h(2) show ?thesis by (simp add: deleteIngredient_def sent_ops Let_def)
    next
      case False
      show ?thesis
      proof (cases "findByName (trim (deleteIngredientNameInput q)) (ingredients q)")
        case None
        with False DeleteIngredient h(2) show ?thesis
          by (simp add: deleteIngredient_def sent_ops Let_def)
      next
        case (Some ingredient)
        with False DeleteIngredient h(1) show ?thesis
          by (simp add: ingredient_defs browser_ops Let_def not_ok_simps)
      qed
    qed
  next
    case GetIngredients
    with h(1) show ?thesis
      by (simp add: ingredient_defs browser_ops Let_def not_ok_simps)
  qed
  have login:
    "alerts (processLogin (Response s l) lp) =
        alerts lp @ [if s = 401 then ''Incorrect login!'' else ''Unknown issue!'']"
    if h: "\<not> ok s" "sent (processLogin (Response s l) lp) \<noteq> sent lp"
  proof (cases "trim (usernameInput lp) = [] \<or> trim (passwordInput lp) = []")
    case True
    with h(2) show ?thesis by (simp add: processLogin_def sent_ops Let_def)
  next
    case False
    with h(1) show ?thesis by (simp add: login_defs browser_ops Let_def not_ok_simps)
  qed
  have registration:
    "alerts (processRegistration (Response s g) gp) =
        alerts gp @
        [if s = 409 then ''User or email already exists''
         else ''Registration error. Please try again.'']"
    if h: "\<not> ok s" "sent (processRegistration (Response s g) gp) \<noteq> sent gp"
  proof (cases "trim (regUsernameInput gp) = [] \<or> trim (emailInput gp) = [] \<or>
      trim (regPasswordInput gp) = [] \<or> trim (repeatPasswordInput gp) = []")
    case True
    with h(2) show ?thesis by (simp add: processRegistration_def sent_ops Let_def)
  next
    case False
    note filled = this
    show ?thesis
    proof (cases "trim (regPasswordInput gp) = trim (repeatPasswordInput gp)")
      case True
      with filled h(1) show ?thesis
        by (simp add: register_defs browser_ops Let_def not_ok_simps)
    next
      case False
      with filled h(2) show ?thesis by (simp add: processRegistration_def sent_ops Let_def)
    qed
  qed
  show ?thesis
  proof (intro conjI impI; (elim conjE)?)
    assume "\<not> ok s" "sent (run_recipe w (Response s b) r2 p) \<noteq> sent p"
      "\<not> (w = SearchRecipes \<and> trim (searchInput p) \<noteq> [] \<and> s = 404)"
    then show "alerts (run_recipe w (Response s b) r2 p) =
        alerts p @
        [case w of
           SearchRecipes \<Rightarrow>
             if trim (searchInput p) = [] then
               (if s = 401 then ''Unauthorized: Please login'' else ''Failed to fetch recipes'')
             else ''Error searching recipes''
         | AddRecipe \<Rightarrow>
             if s = 401 then ''Unauthorized: Please login again'' else ''Failed to add recipe''
         | UpdateRecipe \<Rightarrow>
             if s = 401 then ''Unauthorized: Please login again'' else ''Failed to update recipe''
         | DeleteRecipe \<Rightarrow>
             if s = 401 then ''Unauthorized: Please login again''
             else if s = 403 then ''Forbidden: Admin access required''
             else ''Failed to delete recipe''
         | GetRecipes \<Rightarrow>
             if s = 401 then ''Unauthorized: Please login'' else ''Failed to fetch recipes''
         | ProcessLogout \<Rightarrow> ''Logout failed'']"
      by (rule recipe)
  next
    assume "\<not> ok s" "sent (run_ingredient wi (Response s c) t2 q) \<noteq> sent q"
    then show "alerts (run_ingredient wi (Response s c) t2 q) =
        alerts q @
        [case wi of
           AddIngredient \<Rightarrow>
             if s = 401 then ''Unauthorized: Please login again''
             else if s = 403 then ''Forbidden: Admin access required''
             else ''Failed to add ingredient''
         | DeleteIngredient \<Rightarrow>
             if s = 401 then ''Unauthorized: Please login again''
             else if s = 403 then ''Forbidden: Admin access required''
             else if s = 404 then ''Ingredient not found''
             else ''Failed to delete ingredient''
         | GetIngredients \<Rightarrow>
             if s = 401 then ''Unauthorized: Please login'' else ''Failed to fetch ingredients'']"
      by (rule ingredient)
  next
    assume "\<not> ok s" "sent (processLogin (Response s l) lp) \<noteq> sent lp"
    then show "alerts (processLogin (Response s l) lp) =
        alerts lp @ [if s = 401 then ''Incorrect login!'' else ''Unknown issue!'']"
      by (rule login)
  next
    assume "\<not> ok s" "sent (processRegistration (Response s g) gp) \<noteq> sent gp"
    then show "alerts (processRegistration (Response s g) gp) =
        alerts gp @
        [if s = 409 then ''User or email already exists''
         else ''Registration error. Please try again.'']"
      by (rule registration)
  next
    assume "sent (run_recipe w Rejected r2 p) \<noteq> sent p"
    then show "alerts (run_recipe w Rejected r2 p) =
        alerts p @
        [case w of
           SearchRecipes \<Rightarrow>
             if trim (searchInput p) = [] then ''Error fetching recipes''
             else ''Failed to search recipes''
         | AddRecipe \<Rightarrow> ''Error adding recipe''
         | UpdateRecipe \<Rightarrow> ''Error updating recipe''
         | DeleteRecipe \<Rightarrow> ''Error deleting recipe''
         | GetRecipes \<Rightarrow> ''Error fetching recipes''
         | ProcessLogout \<Rightarrow> ''Error during logout'']"
      by (rule recipe_rejected_message [OF recipe_sent_checks_pass])
  next
    assume "sent (run_ingredient wi Rejected t2 q) \<noteq> sent q"
    then show "alerts (run_ingredient wi Rejected t2 q) =
        alerts q @
        [case wi of
           AddIngredient \<Rightarrow> ''Error adding ingredient''
         | DeleteIngredient \<Rightarrow> ''Error deleting ingredient''
         | GetIngredients \<Rightarrow> ''Error fetching ingredients'']"
      by (rule ingredient_rejected_message [OF ingredient_sent_checks_pass])
  next
    assume "sent (processLogin Rejected lp) \<noteq> sent lp"
    then show "alerts (processLogin Rejected lp) =
        alerts lp @ [''Network error occurred. Please try again.'']"
      by (rule login_rejected_message [OF login_sent_checks_pass])
  next
    assume "sent (processRegistration (Rejected :: unit fetch_result) gp) \<noteq> sent gp"
    then show "alerts (processRegistration (Rejected :: unit fetch_result) gp) =
        alerts gp @ [''An error occurred during registration. Please try again.'']"
      by (rule registration_rejected_message [OF registration_sent_checks_pass])
  qed
qed

theorem failure_message_table_witness:
  "alerts (run_recipe DeleteRecipe (Response 403 None) Rejected recipe_page0) =
     [''Forbidden: Admin access required''] \<and>
   alerts (run_ingredient AddIngredient (Response 403 None) Rejected ingredient_page0) =
     [''Forbidden: Admin access required''] \<and>
   alerts (processLogin (Response 409 None) login_page0) = [''Unknown issue!''] \<and>
   alerts (processRegistration (Response 409 (None :: unit option)) register_page0) =
     [''User or email already exists''] \<and>
   alerts (run_recipe AddRecipe Rejected Rejected recipe_page0) = [''Error adding recipe''] \<and>
   alerts (run_ingredient DeleteIngredient Rejected Rejected ingredient_page0) =
     [''Error deleting ingredient''] \<and>
   alerts (processLogin Rejected login_page0) = [''Network error occurred. Please try again.''] \<and>
   alerts (processRegistration (Rejected :: unit fetch_result) register_page0) =
     [''An error occurred during registration. Please try again.'']"
proof -
  have r: "\<not> ok 403 \<and>
      sent (run_recipe DeleteRecipe (Response 403 None) Rejected recipe_page0) \<noteq> sent recipe_page0 \<and>
      \<not> (DeleteRecipe = SearchRecipes \<and> trim (searchInput recipe_page0) \<noteq> [] \<and> (403 :: int) = 404)"
    by (simp add: recipe_defs browser_ops findByName_def example_defs string_ops Let_def ok_simps)
  have i: "\<not> ok 403 \<and>
      sent (run_ingredient AddIngredient (Response 403 None) Rejected ingredient_page0) \<noteq>
        sent ingredient_page0"
    by (simp add: ingredient_defs browser_ops example_defs string_ops Let_def ok_simps)
  have l: "\<not> ok 409 \<and> sent (processLogin (Response 409 None) login_page0) \<noteq> sent login_page0"
    by (simp add: login_defs browser_ops example_defs string_ops Let_def ok_simps)
  have g: "\<not> ok 409 \<and>
      sent (processRegistration (Response 409 (None :: unit option)) register_page0) \<noteq>
        sent register_page0"
    by (simp add: register_defs browser_ops example_defs string_ops Let_def ok_simps)
  have rr: "sent (run_recipe AddRecipe Rejected Rejected recipe_page0) \<noteq> sent recipe_page0"
    by (simp add: recipe_defs browser_ops example_defs string_ops Let_def)
  have ir: "sent (run_ingredient DeleteIngredient Rejected Rejected ingredient_page0) \<noteq>
      sent ingredient_page0"
    by (simp add: ingredient_defs browser_ops findByName_def example_defs string_ops Let_def)
  have lr: "sent (processLogin Rejected login_page0) \<noteq> sent login_page0"
    by (simp add: login_defs browser_ops example_defs string_ops Let_def)
  have gr: "sent (processRegistration (Rejected :: unit fetch_result) register_page0) \<noteq>
      sent register_page0"
    by (simp add: register_defs browser_ops example_defs string_ops Let_def)
  have z: "alerts recipe_page0 = []" "alerts ingredient_page0 = []" "alerts login_page0 = []"
    "alerts register_page0 = []"
    by (simp_all add: example_defs)
  note i1 = failure_message_table [of 403 DeleteRecipe None Rejected recipe_page0 AddIngredient
      None Rejected ingredient_page0 None login_page0 "None :: unit option" register_page0]
  note i2 = failure_message_table [of 409 DeleteRecipe None Rejected recipe_page0 AddIngredient
      None Rejected ingredient_page0 None login_page0 "None :: unit option" register_page0]
  note i3 = failure_message_table [of 409 AddRecipe None Rejected recipe_page0 DeleteIngredient
      None Rejected ingredient_page0 None login_page0 "None :: unit option" register_page0]
  note a = i1 [THEN conjunct1, THEN mp, OF r]
  note b = i1 [THEN conjunct2, THEN conjunct1, THEN mp, OF i]
  note c = i2 [THEN conjunct2, THEN conjunct2, THEN conjunct1, THEN mp, OF l]
  note d = i2 [THEN conjunct2, THEN conjunct2, THEN conjunct2, THEN conjunct1, THEN mp, OF g]
  note e = i3 [THEN conjunct2, THEN conjunct2, THEN conjunct2, THEN conjunct2, THEN conjunct1,
      THEN mp, OF rr]
  note f = i3 [THEN conjunct2, THEN conjunct2, THEN conjunct2, THEN conjunct2, THEN conjunct2,
      THEN conjunct1, THEN mp, OF ir]
  note h = i3 [THEN conjunct2, THEN conjunct2, THEN conjunct2, THEN conjunct2, THEN conjunct2,
      THEN conjunct2, THEN conjunct1, THEN mp, OF lr]
  note k = i3 [THEN conjunct2, THEN conjunct2, THEN conjunct2, THEN conjunct2, THEN conjunct2,
      THEN conjunct2, THEN conjunct2, THEN mp, OF gr]
  from a have a': "alerts (run_recipe DeleteRecipe (Response 403 None) Rejected recipe_page0) =
     [''Forbidden: Admin access required'']"
    by (simp add: z)
  from b have b': "alerts (run_ingredient AddIngredient (Response 403 None) Rejected
     ingredient_page0) = [''Forbidden: Admin access required'']"
    by (simp add: z)
  from c have c': "alerts (processLogin (Response 409 None) login_page0) = [''Unknown issue!'']"
    by (simp add: z)
  from d have d': "alerts (processRegistration (Response 409 (None :: unit option))
     register_page0) = [''User or email already exists'']"
    by (simp add: z)
  from e have e': "alerts (run_recipe AddRecipe Rejected Rejected recipe_page0) =
     [''Error adding recipe'']"
    by (simp add: z)
  from f have f': "alerts (run_ingredient DeleteIngredient Rejected Rejected ingredient_page0) =
     [''Error deleting ingredient'']"
    by (simp add: z)
  from h have h': "alerts (processLogin Rejected login_page0) =
     [''Network error occurred. Please try again.'']"
    by (simp add: z)
  from k have k': "alerts (processRegistration (Rejected :: unit fetch_result) register_page0) =
     [''An error occurred during registration. Please try again.'']"
    by (simp add: z)
  from a' b' c' d' e' f' h' k' show ?thesis by (intro conjI)
qed

section \<open>The classification of responses\<close>

lemma classify_by_eqE:
  assumes "classify_by acc (Response s b) = classify_by acc (Response s' b')"
  obtains (accepted) "acc s" "acc s'"
    | (same) "s = s'"
    | (generic) "\<not> acc s" "\<not> acc s'" "s \<notin> {401, 403, 404, 409}" "s' \<notin> {401, 403, 404, 409}"
  using assms by (auto simp: classify_by_def split: if_splits)

text \<open>
  C9, as the specification states it, fails. The classification of the specification makes
  every status from 200 to 299 a success, so 200 and 201 are of one variant; but
  \<open>deleteIngredient\<close> handles 201 as it handles 500, with its generic failure message and
  without clearing the input or fetching the list again, and 200 as a success.
\<close>

theorem delete_ingredient_created_is_failure:
  "classify (Response 201 (None :: ingredient list option)) = Success \<and>
   classify (Response 200 (None :: ingredient list option)) = Success \<and>
   classify (Response 500 (None :: ingredient list option)) = GenericFailure \<and>
   run_ingredient DeleteIngredient (Response 201 None) (Response 200 (Some [pepper])) ingredient_page0 =
     run_ingredient DeleteIngredient (Response 500 None) (Response 200 (Some [pepper])) ingredient_page0 \<and>
   alerts (run_ingredient DeleteIngredient (Response 201 None) (Response 200 (Some [pepper]))
     ingredient_page0) = [''Failed to delete ingredient''] \<and>
   deleteIngredientNameInput (run_ingredient DeleteIngredient (Response 201 None)
     (Response 200 (Some [pepper])) ingredient_page0) = ''Salt'' \<and>
   alerts (run_ingredient DeleteIngredient (Response 200 None) (Response 200 (Some [pepper]))
     ingredient_page0) = [] \<and>
   deleteIngredientNameInput (run_ingredient DeleteIngredient (Response 200 None)
     (Response 200 (Some [pepper])) ingredient_page0) = []"
  by (simp add: classify_def classify_by_def ingredient_defs browser_ops findByName_def
      example_defs string_ops Let_def ok_simps)

text \<open>
  C9, amended. Every workflow's dispatch on the response is total and exclusive over the
  seven variants once success is read as the statuses that workflow accepts: 200 to 299 in
  \<open>getRecipes\<close>, \<open>searchRecipes\<close>, \<open>updateRecipe\<close>, \<open>deleteRecipe\<close>, \<open>processLogout\<close> and
  \<open>getIngredients\<close>; 201 alone in \<open>addRecipe\<close>, \<open>addIngredient\<close> and the registration; 200
  alone in the login; 200 and 204 in \<open>deleteIngredient\<close>. Every other status that is not 401,
  403, 404 or 409 (the remaining statuses from 200 to 299 included) is a generic failure.
  Every integer status then has exactly one variant, and what the workflow does depends on
  the status through that variant only: two statuses of one variant, with the same body,
  lead to the same state.
\<close>

theorem dispatch_by_variant:
  "(\<exists>!v. classify_by (recipe_accepts w) (Response s b) = v) \<and>
   (classify_by (recipe_accepts w) (Response s b) = classify_by (recipe_accepts w) (Response s' b) \<longrightarrow>
      run_recipe w (Response s b) r2 p = run_recipe w (Response s' b) r2 p) \<and>
   (classify_by (ingredient_accepts wi) (Response s c) =
    classify_by (ingredient_accepts wi) (Response s' c) \<longrightarrow>
      run_ingredient wi (Response s c) t2 q = run_ingredient wi (Response s' c) t2 q) \<and>
   (classify_by login_accepts (Response s l) = classify_by login_accepts (Response s' l) \<longrightarrow>
      processLogin (Response s l) lp = processLogin (Response s' l) lp) \<and>
   (classify_by registration_accepts (Response s g) =
    classify_by registration_accepts (Response s' g) \<longrightarrow>
      processRegistration (Response s g) gp = processRegistration (Response s' g) gp)"
proof -
  have total: "\<exists>!v. classify_by (recipe_accepts w) (Response s b) = v"
    by simp
  have recipe: "run_recipe w (Response s b) r2 p = run_recipe w (Response s' b) r2 p"
    if eq: "classify_by (recipe_accepts w) (Response s b) =
        classify_by (recipe_accepts w) (Response s' b)"
    using eq
  proof (cases rule: classify_by_eqE)
    case accepted
    then show ?thesis
      by (cases w) (simp_all add: recipe_defs Let_def ok_simps split: option.split)
  next
    case same
    then show ?thesis by simp
  next
    case generic
    then show ?thesis
      by (cases w) (simp_all add: recipe_defs Let_def not_ok_simps split: option.split)
  qed
  have ingredient: "run_ingredient wi (Response s c) t2 q = run_ingredient wi (Response s' c) t2 q"
    if eq: "classify_by (ingredient_accepts wi) (Response s c) =
        classify_by (ingredient_accepts wi) (Response s' c)"
    using eq
  proof (cases rule: classify_by_eqE)
    case accepted
    then show ?thesis
      by (cases wi) (auto simp add: ingredient_defs Let_def ok_simps split: option.split)
  next
    case same
    then show ?thesis by simp
  next
    case generic
    then show ?thesis
      by (cases wi) (simp_all add: ingredient_defs Let_def not_ok_simps split: option.split)
  qed
  have login: "processLogin (Response s l) lp = processLogin (Response s' l) lp"
    if eq: "classify_by login_accepts (Response s l) = classify_by login_accepts (Response s' l)"
    using eq
  proof (cases rule: classify_by_eqE)
    case accepted
    then show ?thesis by (simp add: login_accepts_def)
  next
    case same
    then show ?thesis by simp
  next
    case generic
    then show ?thesis by (simp add: login_defs login_accepts_def Let_def)
  qed
  have registration: "processRegistration (Response s g) gp = processRegistration (Response s' g) gp"
    if eq: "classify_by registration_accepts (Response s g) =
        classify_by registration_accepts (Response s' g)"
    using eq
  proof (cases rule: classify_by_eqE)
    case accepted
    then show ?thesis by (simp add: registration_accepts_def)
  next
    case same
    then show ?thesis by simp
  next
    case generic
    then show ?thesis by (simp add: register_defs registration_accepts_def Let_def)
  qed
  show ?thesis
    by (rule conjI [OF total conjI [OF impI [OF recipe] conjI [OF impI [OF ingredient]
          conjI [OF impI [OF login] impI [OF registration]]]]])
qed

theorem dispatch_by_variant_witness:
  "run_recipe UpdateRecipe (Response 200 None) Rejected recipe_page0 =
     run_recipe UpdateRecipe (Response 204 None) Rejected recipe_page0 \<and>
   run_ingredient DeleteIngredient (Response 200 None) Rejected ingredient_page0 =
     run_ingredient DeleteIngredient (Response 204 None) Rejected ingredient_page0 \<and>
   run_ingredient DeleteIngredient (Response 201 None) Rejected ingredient_page0 =
     run_ingredient DeleteIngredient (Response 500 None) Rejected ingredient_page0 \<and>
   processLogin (Response 201 None) login_page0 = processLogin (Response 500 None) login_page0 \<and>
   processRegistration (Response 200 (None :: unit option)) register_page0 =
     processRegistration (Response 500 (None :: unit option)) register_page0"
proof -
  have a: "classify_by (recipe_accepts UpdateRecipe) (Response 200 (None :: recipe list option)) =
      classify_by (recipe_accepts UpdateRecipe) (Response 204 None)"
    by (simp add: classify_by_def ok_simps)
  have b: "classify_by (ingredient_accepts DeleteIngredient)
        (Response 200 (None :: ingredient list option)) =
      classify_by (ingredient_accepts DeleteIngredient) (Response 204 None)"
    by (simp add: classify_by_def)
  have c: "classify_by (ingredient_accepts DeleteIngredient)
        (Response 201 (None :: ingredient list option)) =
      classify_by (ingredient_accepts DeleteIngredient) (Response 500 None)"
    by (simp add: classify_by_def)
  have d: "classify_by login_accepts (Response 201 (None :: string option)) =
      classify_by login_accepts (Response 500 None)"
    by (simp add: classify_by_def login_accepts_def)
  have e: "classify_by registration_accepts (Response 200 (None :: unit option)) =
      classify_by registration_accepts (Response 500 None)"
    by (simp add: classify_by_def registration_accepts_def)
  note i1 = dispatch_by_variant [of UpdateRecipe 200 None 204 Rejected recipe_page0
      DeleteIngredient None Rejected ingredient_page0 None login_page0 "None :: unit option"
      register_page0]
  note i2 = dispatch_by_variant [of UpdateRecipe 201 None 500 Rejected recipe_page0
      DeleteIngredient None Rejected ingredient_page0 None login_page0 "None :: unit option"
      register_page0]
  note i3 = dispatch_by_variant [of UpdateRecipe 200 None 500 Rejected recipe_page0
      DeleteIngredient None Rejected ingredient_page0 None login_page0 "None :: unit option"
      register_page0]
  from i1 [THEN conjunct2, THEN conjunct1, THEN mp, OF a]
    i1 [THEN conjunct2, THEN conjunct2, THEN conjunct1, THEN mp, OF b]
    i2 [THEN conjunct2, THEN conjunct2, THEN conjunct1, THEN mp, OF c]
    i2 [THEN conjunct2, THEN conjunct2, THEN conjunct2, THEN conjunct1, THEN mp, OF d]
    i3 [THEN conjunct2, THEN conjunct2, THEN conjunct2, THEN conjunct2, THEN mp, OF e]
  show ?thesis by (intro conjI)
qed

section \<open>The stored token\<close>

lemma reachable_token:
  assumes "reachable starts_with_token ss"
  shows "ss ''auth-token'' = None \<or> (\<exists>tok. ss ''auth-token'' = Some tok \<and> tok \<noteq> [])"
  using assms
proof (induction rule: reachable.induct)
  case fresh
  show ?case by simp
next
  case (login_step p r)
  show ?case
  proof (cases "\<exists>t. r = Response 200 (Some t)")
    case True
    then obtain t where r: "r = Response 200 (Some t)" by blast
    from login_step.hyps(2) [OF r] have "takeWhile (\<lambda>c. c \<noteq> CHR '' '') t \<noteq> []"
      by (cases t) (simp_all add: starts_with_token_def)
    with r login_step.IH show ?thesis
      by (simp add: processLogin_session)
  next
    case False
    then have "sessionStorage (processLogin r p) ''auth-token'' = sessionStorage p ''auth-token''"
      by (simp add: processLogin_session split: fetch_result.split option.split)
    with login_step.IH show ?thesis by simp
  qed
next
  case (registration_step p r)
  then show ?case by (simp add: processRegistration_session)
next
  case (recipe_load p r)
  then show ?case by (simp add: recipe_onLoad_session)
next
  case (recipe_step p w r1 r2)
  show ?case
  proof (cases "w = ProcessLogout")
    case True
    with recipe_step.IH show ?thesis
      by (simp add: processLogout_session split: fetch_result.split)
  next
    case False
    with recipe_step.IH show ?thesis by (simp add: recipe_session_kept)
  qed
next
  case (ingredient_step p wi r1 r2)
  then show ?case by (simp add: ingredient_session_kept)
qed

text \<open>
  C7, as the specification states it, fails: a login answered by 200 with an empty body, or
  with a body that starts with a space, stores the empty string as the token. The storage
  so reached is a reachable one, the bodies of the login responses being unrestricted.
\<close>

theorem login_empty_body_stores_empty_token:
  "getToken (processLogin (Response 200 (Some [])) login_page0) = Some [] \<and>
   getToken (processLogin (Response 200 (Some '' true'')) login_page0) = Some [] \<and>
   reachable (\<lambda>_. True) (sessionStorage (processLogin (Response 200 (Some [])) login_page0))"
proof -
  have a: "getToken (processLogin (Response 200 (Some [])) login_page0) = Some []"
    by (simp add: login_defs session_ops browser_ops example_defs string_ops Let_def)
  have b: "getToken (processLogin (Response 200 (Some '' true'')) login_page0) = Some []"
    by (simp add: login_defs session_ops browser_ops example_defs string_ops Let_def)
  have "sessionStorage login_page0 = Map.empty" by (simp add: example_defs)
  then have "reachable (\<lambda>_. True) (sessionStorage login_page0)"
    by (simp add: reachable.fresh)
  then have c: "reachable (\<lambda>_. True)
      (sessionStorage (processLogin (Response 200 (Some [])) login_page0))"
    by (rule reachable.login_step) simp
  from a b c show ?thesis by (intro conjI)
qed

text \<open>
  C7, amended. A login with non-empty trimmed inputs that is answered by 200 with a
  readable body stores as the token the part of the body before its first space (the whole
  body when it has none), whatever that is; the token stored is therefore non-empty exactly
  when the body starts with a character other than a space. In every state reached from
  the empty session storage by workflows of the four pages, the 200 responses to login
  requests all having such a body, the stored token is absent or a non-empty string.
\<close>

theorem token_absent_or_nonempty:
  "(trim (usernameInput lp) \<noteq> [] \<and> trim (passwordInput lp) \<noteq> [] \<longrightarrow>
      getToken (processLogin (Response 200 (Some t)) lp) =
        Some (takeWhile (\<lambda>c. c \<noteq> CHR '' '') t) \<and>
      (takeWhile (\<lambda>c. c \<noteq> CHR '' '') t \<noteq> [] \<longleftrightarrow> starts_with_token t)) \<and>
   (reachable starts_with_token ss \<longrightarrow>
      ss ''auth-token'' = None \<or> (\<exists>tok. ss ''auth-token'' = Some tok \<and> tok \<noteq> []))"
proof -
  have stored: "getToken (processLogin (Response 200 (Some t)) lp) =
        Some (takeWhile (\<lambda>c. c \<noteq> CHR '' '') t) \<and>
      (takeWhile (\<lambda>c. c \<noteq> CHR '' '') t \<noteq> [] \<longleftrightarrow> starts_with_token t)"
    if "trim (usernameInput lp) \<noteq> [] \<and> trim (passwordInput lp) \<noteq> []"
  proof -
    have "takeWhile (\<lambda>c. c \<noteq> CHR '' '') t \<noteq> [] \<longleftrightarrow> starts_with_token t"
      by (cases t) (simp_all add: starts_with_token_def)
    with that show ?thesis
      by (simp add: session_ops browser_ops processLogin_session)
  qed
  show ?thesis
    by (rule conjI [OF impI [OF stored] impI [OF reachable_token]])
qed

theorem token_absent_or_nonempty_witness:
  "getToken (processLogin (Response 200 (Some ''tok true'')) login_page0) = Some ''tok'' \<and>
   (\<exists>tok. sessionStorage (processLogin (Response 200 (Some ''tok true'')) login_page0)
      ''auth-token'' = Some tok \<and> tok \<noteq> [])"
proof -
  let ?after = "processLogin (Response 200 (Some ''tok true'')) login_page0"
  have inputs: "trim (usernameInput login_page0) \<noteq> [] \<and> trim (passwordInput login_page0) \<noteq> []"
    by (simp add: example_defs string_ops)
  have "sessionStorage login_page0 = Map.empty" by (simp add: example_defs)
  then have "reachable starts_with_token (sessionStorage login_page0)"
    by (simp add: reachable.fresh)
  then have reach: "reachable starts_with_token (sessionStorage ?after)"
    by (rule reachable.login_step) (simp add: starts_with_token_def)
  note i = token_absent_or_nonempty [of login_page0 "''tok true''" "sessionStorage ?after"]
  from i [THEN conjunct1, THEN mp, OF inputs]
  have a: "getToken ?after = Some ''tok''" by simp
  from i [THEN conjunct2, THEN mp, OF reach] a
  have b: "\<exists>tok. sessionStorage ?after ''auth-token'' = Some tok \<and> tok \<noteq> []"
    by (simp add: session_ops browser_ops)
  from a b show ?thesis by (intro conjI)
qed

end
